theory Spec2Isabelle
  imports Main
begin

section \<open>The transaction registry of tukitd\<close>

text \<open>
  The daemon keeps the transactions that are in use in a singly linked list of
  \<^verbatim>\<open>TransactionEntry\<close> nodes. The chain always ends in a placeholder node whose
  \<^verbatim>\<open>id\<close> is \<^verbatim>\<open>NULL\<close>; the loops of \<^verbatim>\<open>lockSnapshot\<close> and
  \<^verbatim>\<open>unlockSnapshot\<close> walk the chain until they reach it. The model is the list of
  the nodes in front of the placeholder, in chain order: the empty list is the chain that
  consists of the placeholder alone. The \<^verbatim>\<open>state\<close> field of the placeholder is
  never read (\<^verbatim>\<open>lockSnapshot\<close> overwrites it before the node becomes an entry),
  so it is not part of the model.
\<close>

datatype transactionstates = queued | running | finished

record TransactionEntry =
  id_t :: string
  state_t :: transactionstates

type_synonym registry = "TransactionEntry list"

text \<open>The two \<^verbatim>\<open>errno\<close> values the registry returns, as Linux defines them.\<close>

definition EBUSY :: int where
  "EBUSY = 16"

definition ENOMEM :: int where
  "ENOMEM = 12"

text \<open>
  \<^verbatim>\<open>lockSnapshot\<close> allocates twice: the new placeholder with \<^verbatim>\<open>malloc\<close> and
  the copy of the identifier with \<^verbatim>\<open>strdup\<close>. Whether each allocation succeeds is
  an input of the model.
\<close>

record allocator =
  malloc_ok :: bool
  strdup_ok :: bool

text \<open>
  The result of \<^verbatim>\<open>lockSnapshot\<close>: the returned \<^verbatim>\<open>int\<close>, the message stored
  in \<^verbatim>\<open>ret_error\<close> (if any; its name is always \<^verbatim>\<open>org.opensuse.tukit.Error\<close>)
  and the registry afterwards.
\<close>

record lock_result =
  lock_ret :: int
  lock_error :: "string option"
  lock_reg :: registry

text \<open>
  The loop of \<^verbatim>\<open>lockSnapshot\<close> compares every entry with the requested
  identifier and returns \<^verbatim>\<open>-EBUSY\<close> at the first match. At the placeholder it
  allocates the next placeholder, copies the identifier into the old one and marks it
  \<^verbatim>\<open>queued\<close>; a failed allocation leaves the old placeholder as it was.
\<close>

fun lockSnapshot :: "allocator \<Rightarrow> registry \<Rightarrow> string \<Rightarrow> lock_result" where
  "lockSnapshot a [] transaction =
     (if \<not> malloc_ok a then
        \<lparr>lock_ret = - ENOMEM,
         lock_error = Some ''Error while allocating space for transaction.'',
         lock_reg = []\<rparr>
      else if \<not> strdup_ok a then
        \<lparr>lock_ret = - ENOMEM,
         lock_error = Some ''Error during strdup.'',
         lock_reg = []\<rparr>
      else
        \<lparr>lock_ret = 0,
         lock_error = None,
         lock_reg = [\<lparr>id_t = transaction, state_t = queued\<rparr>]\<rparr>)"
| "lockSnapshot a (e # es) transaction =
     (if id_t e = transaction then
        \<lparr>lock_ret = - EBUSY,
         lock_error = Some ''The transaction is currently in use by another thread.'',
         lock_reg = e # es\<rparr>
      else
        (let r = lockSnapshot a es transaction
         in r\<lparr>lock_reg := e # lock_reg r\<rparr>))"

text \<open>
  \<^verbatim>\<open>unlockSnapshot\<close> removes the first entry with the identifier. It does not
  unlink the matching node: it moves the \<^verbatim>\<open>id\<close> of the following node into it,
  frees the following node and, unless that node was the placeholder, links past it. The
  \<^verbatim>\<open>state\<close> of the matching node is left as it is, so the entry that follows
  takes over the state of the removed one.
\<close>

fun unlockSnapshot :: "registry \<Rightarrow> string \<Rightarrow> registry" where
  "unlockSnapshot [] transaction = []"
| "unlockSnapshot (e # es) transaction =
     (if id_t e = transaction then
        (case es of
           [] \<Rightarrow> []
         | n # ns \<Rightarrow> e\<lparr>id_t := id_t n\<rparr> # ns)
      else e # unlockSnapshot es transaction)"

text \<open>The identifiers that are locked, in chain order.\<close>

definition ids :: "registry \<Rightarrow> string list" where
  "ids r = map id_t r"

text \<open>The invariant of the registry: no identifier has two entries.\<close>

definition unique_ids :: "registry \<Rightarrow> bool" where
  "unique_ids r = distinct (ids r)"

section \<open>Messages and signals on the bus\<close>

text \<open>
  A message body is the list of its arguments. The daemon only uses the D-Bus types
  \<^verbatim>\<open>s\<close> (string) and \<^verbatim>\<open>i\<close> (32 bit integer).
\<close>

datatype arg = Str string | Int32 int

type_synonym sd_bus_message = "arg list"

record signal =
  sig_path :: string
  sig_interface :: string
  sig_member :: string
  sig_body :: "arg list"

text \<open>
  \<^verbatim>\<open>sd_bus_message_read(m, "s", ...)\<close> and \<^verbatim>\<open>sd_bus_message_read(m, "ss", ...)\<close>:
  the call fails (a negative result, here \<open>None\<close>) unless the next arguments of the
  message are strings.
\<close>

fun sd_bus_message_read_s :: "sd_bus_message \<Rightarrow> string option" where
  "sd_bus_message_read_s (Str s # rest) = Some s"
| "sd_bus_message_read_s m = None"

fun sd_bus_message_read_ss :: "sd_bus_message \<Rightarrow> (string \<times> string) option" where
  "sd_bus_message_read_ss (Str s1 # Str s2 # rest) = Some (s1, s2)"
| "sd_bus_message_read_ss m = None"

text \<open>The three signals the daemon emits.\<close>

definition Error_signal :: "string \<Rightarrow> string \<Rightarrow> int \<Rightarrow> signal" where
  "Error_signal transaction message error =
     \<lparr>sig_path = ''/org/opensuse/tukit'',
      sig_interface = ''org.opensuse.tukit'',
      sig_member = ''Error'',
      sig_body = [Str transaction, Str message, Int32 error]\<rparr>"

definition CommandExecuted_signal :: "string \<Rightarrow> int \<Rightarrow> string \<Rightarrow> signal" where
  "CommandExecuted_signal transaction exec_ret output =
     \<lparr>sig_path = ''/org/opensuse/tukit'',
      sig_interface = ''org.opensuse.tukit.Transaction'',
      sig_member = ''CommandExecuted'',
      sig_body = [Str transaction, Int32 exec_ret, Str output]\<rparr>"

definition TransactionOpened_signal :: "string \<Rightarrow> signal" where
  "TransactionOpened_signal snapid =
     \<lparr>sig_path = ''/org/opensuse/tukit'',
      sig_interface = ''org.opensuse.tukit.Transaction'',
      sig_member = ''TransactionOpened'',
      sig_body = [Str snapid]\<rparr>"

section \<open>The environment: libtukit, libc and sd-bus\<close>

text \<open>
  The transaction engine (libtukit) is not part of the daemon's source. What its
  functions return is a parameter of the model: \<open>tukit_new_tx\<close> is \<open>False\<close> when the
  call returns \<^verbatim>\<open>NULL\<close>, \<open>tukit_tx_get_snapshot\<close> is \<open>None\<close> when it returns
  \<^verbatim>\<open>NULL\<close>, the two execution functions return the command's return code and
  its output.
\<close>

record tukit =
  tukit_new_tx :: bool
  tukit_tx_init :: "string \<Rightarrow> int"
  tukit_tx_get_snapshot :: "string option"
  tukit_tx_resume :: "string \<Rightarrow> int"
  tukit_tx_execute :: "string list \<Rightarrow> int \<times> string"
  tukit_tx_call_ext :: "string list \<Rightarrow> int \<times> string"
  tukit_tx_keep :: int
  tukit_tx_finalize :: int
  tukit_get_errmsg :: string

text \<open>
  The operating system and the bus library: \<open>wordexp\<close> returns its result code and
  the expanded words, \<open>connect_result n\<close> is what the \<open>n\<close>-th call of
  \<^verbatim>\<open>sd_bus_default_system\<close> of a worker returns, \<open>emit_result n\<close> what the
  \<open>n\<close>-th call of \<^verbatim>\<open>sd_bus_emit_signal\<close> on an open connection of a worker
  returns (both counted from 0), \<open>main_emit_result\<close> what the emission on the
  connection of the event loop returns, \<open>reply_result\<close> what
  \<^verbatim>\<open>sd_bus_reply_method_return\<close> returns and \<open>pthread_create_result\<close> what
  \<^verbatim>\<open>pthread_create\<close> returns.
\<close>

record sys =
  alloc :: allocator
  wordexp :: "string \<Rightarrow> int \<times> string list"
  connect_result :: "nat \<Rightarrow> int"
  emit_result :: "nat \<Rightarrow> int"
  main_emit_result :: int
  reply_result :: int
  pthread_create_result :: int

definition EINVAL :: int where
  "EINVAL = 22"

section \<open>The worker thread\<close>

text \<open>
  What a worker does is recorded as a trace of its calls into the engine and the bus,
  in order. \<open>Emit sg r\<close> is a call of \<^verbatim>\<open>sd_bus_emit_signal\<close> for the signal
  \<open>sg\<close> that returned \<open>r\<close>; the signal is on the bus when \<open>r\<close> is not negative.
  \<open>Bus n\<close> is the connection the \<open>n\<close>-th call of
  \<^verbatim>\<open>sd_bus_default_system\<close> opened. \<open>Release b\<close> is a call of
  \<^verbatim>\<open>sd_bus_flush_close_unref\<close> on the open connection \<open>b\<close>,
  \<open>Use_after_free b\<close> the same call on a connection that has been released before.
\<close>

datatype sd_bus = Bus nat

datatype event =
    New_tx
  | Tx_resume string
  | Wordexp string
  | Tx_execute "string list"
  | Tx_call_ext "string list"
  | Tx_keep
  | Free_tx
  | Connect int
  | Emit signal int
  | Release sd_bus
  | Use_after_free sd_bus

text \<open>
  The state of a worker: how often it has connected and emitted, the connections that
  are open, its trace, and \<open>fault\<close>, which is set when the worker has released a
  connection a second time. What the process does after that is undefined; the model
  records nothing more and the worker does not return.
\<close>

record io =
  n_connect :: nat
  n_emit :: nat
  open_buses :: "sd_bus list"
  fault :: bool
  trace :: "event list"

definition io_start :: io where
  "io_start = \<lparr>n_connect = 0, n_emit = 0, open_buses = [], fault = False, trace = []\<rparr>"

definition record_event :: "event \<Rightarrow> io \<Rightarrow> io" where
  "record_event e w = w\<lparr>trace := trace w @ [e]\<rparr>"

text \<open>
  \<^verbatim>\<open>get_bus\<close>: a failed \<^verbatim>\<open>sd_bus_default_system\<close> is logged and the
  \<^verbatim>\<open>NULL\<close> connection is returned.
\<close>

definition get_bus :: "sys \<Rightarrow> io \<Rightarrow> sd_bus option \<times> io" where
  "get_bus s w =
     (let r = connect_result s (n_connect w);
          b = Bus (n_connect w);
          w' = record_event (Connect r)
                 (w\<lparr>n_connect := Suc (n_connect w),
                    open_buses := (if r < 0 then open_buses w else b # open_buses w)\<rparr>)
      in (if r < 0 then None else Some b, w'))"

text \<open>
  \<^verbatim>\<open>sd_bus_emit_signal\<close>: without a connection the library refuses the call
  (\<^verbatim>\<open>-EINVAL\<close>); on a connection the environment decides. (The worker only
  emits on a connection it has obtained and not yet released.)
\<close>

definition sd_bus_emit_signal :: "sys \<Rightarrow> sd_bus option \<Rightarrow> signal \<Rightarrow> io \<Rightarrow> int \<times> io" where
  "sd_bus_emit_signal s bus sg w =
     (case bus of
        None \<Rightarrow> (- EINVAL, record_event (Emit sg (- EINVAL)) w)
      | Some b \<Rightarrow>
          (let r = emit_result s (n_emit w)
           in (r, record_event (Emit sg r) (w\<lparr>n_emit := Suc (n_emit w)\<rparr>))))"

text \<open>
  \<^verbatim>\<open>sd_bus_flush_close_unref\<close>: nothing happens for \<^verbatim>\<open>NULL\<close>; an open
  connection is flushed, closed and freed; a pointer to a connection that has been
  freed already is used after its release.
\<close>

definition sd_bus_flush_close_unref :: "sd_bus option \<Rightarrow> io \<Rightarrow> io" where
  "sd_bus_flush_close_unref bus w =
     (case bus of
        None \<Rightarrow> w
      | Some b \<Rightarrow>
          if fault w then w
          else if b \<in> set (open_buses w) then
            record_event (Release b) (w\<lparr>open_buses := removeAll b (open_buses w)\<rparr>)
          else (record_event (Use_after_free b) w)\<lparr>fault := True\<rparr>)"

text \<open>
  \<^verbatim>\<open>send_error_signal\<close>: opens a connection if it was given none, emits the
  \<^verbatim>\<open>Error\<close> signal, logs a failure, releases the connection it used (its own or
  the caller's) and returns the result of the emission.
\<close>

definition send_error_signal ::
  "sys \<Rightarrow> sd_bus option \<Rightarrow> string \<Rightarrow> string \<Rightarrow> int \<Rightarrow> io \<Rightarrow> int \<times> io" where
  "send_error_signal s bus transaction message error w =
     (let (bus', w1) = (if bus = None then get_bus s w else (bus, w));
          (ret, w2) = sd_bus_emit_signal s bus' (Error_signal transaction message error) w1
      in (ret, sd_bus_flush_close_unref bus' w2))"

record execution_args =
  ea_transaction :: string
  ea_command :: string
  ea_chrooted :: int

text \<open>
  The label \<^verbatim>\<open>finish_execute\<close>: the connection in the worker's variable
  \<^verbatim>\<open>bus\<close> is released, then the engine handle is freed and \<open>ret\<close> returned.
  After a fault the last two steps are not reached and the returned number means
  nothing.
\<close>

definition finish_execute :: "sd_bus option \<Rightarrow> int \<Rightarrow> io \<Rightarrow> int \<times> io" where
  "finish_execute bus ret w =
     (let w1 = sd_bus_flush_close_unref bus w
      in if fault w1 then (ret, w1) else (ret, record_event Free_tx w1))"

text \<open>
  The part of \<^verbatim>\<open>execution_func\<close> after the command has been expanded: the command
  runs in the mode \<open>chrooted\<close> selects, the engine is asked to keep the snapshot,
  and either the \<^verbatim>\<open>CommandExecuted\<close> signal or an \<^verbatim>\<open>Error\<close> signal is
  emitted. The worker's variable \<^verbatim>\<open>bus\<close> is \<^verbatim>\<open>NULL\<close> until the call of
  \<^verbatim>\<open>get_bus\<close> before the \<^verbatim>\<open>CommandExecuted\<close> signal.
\<close>

definition run_command ::
  "tukit \<Rightarrow> sys \<Rightarrow> string \<Rightarrow> int \<Rightarrow> string list \<Rightarrow> io \<Rightarrow> int \<times> io" where
  "run_command tk s transaction chrooted argv w =
     (let (exec_ret, output) =
            (if chrooted \<noteq> 0 then tukit_tx_execute tk argv else tukit_tx_call_ext tk argv);
          w1 = record_event (if chrooted \<noteq> 0 then Tx_execute argv else Tx_call_ext argv) w;
          ret = tukit_tx_keep tk;
          w2 = record_event Tx_keep w1
      in if ret \<noteq> 0 then
           (let (r, w3) = send_error_signal s None transaction (tukit_get_errmsg tk) (- 1) w2
            in finish_execute None ret w3)
         else
           (let (bus, w3) = get_bus s w2;
                (ret', w4) =
                  sd_bus_emit_signal s bus (CommandExecuted_signal transaction exec_ret output) w3
            in if ret' < 0 then
                 (let (r, w5) =
                        send_error_signal s bus transaction
                          ''Cannot send signal 'CommandExecuted'.'' ret' w4
                  in finish_execute bus ret' w5)
               else finish_execute bus ret' w4))"

text \<open>
  \<^verbatim>\<open>execution_func\<close>, from the point where it has copied its arguments and set
  the state of its entry to \<^verbatim>\<open>running\<close> (that write is part of \<open>execute\<close>
  below, which waits for it).
\<close>

definition execution_func :: "tukit \<Rightarrow> sys \<Rightarrow> execution_args \<Rightarrow> io \<Rightarrow> int \<times> io" where
  "execution_func tk s ea w =
     (let transaction = ea_transaction ea;
          command = ea_command ea;
          chrooted = ea_chrooted ea;
          w1 = record_event New_tx w
      in if \<not> tukit_new_tx tk then
           (let (r, w2) = send_error_signal s None transaction (tukit_get_errmsg tk) (- 1) w1
            in finish_execute None 0 w2)
         else
           (let ret = tukit_tx_resume tk transaction;
                w2 = record_event (Tx_resume transaction) w1
            in if ret \<noteq> 0 then
                 (let (r, w3) = send_error_signal s None transaction (tukit_get_errmsg tk) ret w2
                  in finish_execute None ret w3)
               else
                 (let (ret', argv) = wordexp s command;
                      w3 = record_event (Wordexp command) w2
                  in if ret' \<noteq> 0 then
                       (let (r, w4) =
                              send_error_signal s None transaction
                                ''Command could not be processed.'' ret' w3
                        in finish_execute None ret' w4)
                     else run_command tk s transaction chrooted argv w3)))"

text \<open>The signals a trace put on the bus, and the signals it tried to emit.\<close>

fun emitted :: "event list \<Rightarrow> signal list" where
  "emitted [] = []"
| "emitted (Emit sg r # es) = (if 0 \<le> r then sg # emitted es else emitted es)"
| "emitted (e # es) = emitted es"

fun attempted :: "event list \<Rightarrow> signal list" where
  "attempted [] = []"
| "attempted (Emit sg r # es) = sg # attempted es"
| "attempted (e # es) = attempted es"

section \<open>The handlers of the event loop\<close>

text \<open>
  What a handler leaves behind: its return value, the message in \<^verbatim>\<open>ret_error\<close>,
  the reply it sent, the registry, the signals it emitted on the connection of the event
  loop, the calls of \<^verbatim>\<open>unlockSnapshot\<close> it made (their arguments, in order) and
  the arguments of the worker it started.
\<close>

record handler_result =
  h_ret :: int
  h_error :: "string option"
  h_reply :: "arg list option"
  h_reg :: registry
  h_sent :: "signal list"
  h_unlocks :: "string list"
  h_spawned :: "execution_args option"

definition failed :: "int \<Rightarrow> string option \<Rightarrow> registry \<Rightarrow> handler_result" where
  "failed ret err r =
     \<lparr>h_ret = ret, h_error = err, h_reply = None, h_reg = r, h_sent = [],
      h_unlocks = [], h_spawned = None\<rparr>"

definition transaction_open :: "tukit \<Rightarrow> sys \<Rightarrow> sd_bus_message \<Rightarrow> registry \<Rightarrow> handler_result" where
  "transaction_open tk s m r =
     (case sd_bus_message_read_s m of
        None \<Rightarrow> failed (- 1) (Some ''Could not read base snapshot identifier.'') r
      | Some base \<Rightarrow>
          if \<not> tukit_new_tx tk then failed (- 1) (Some (tukit_get_errmsg tk)) r
          else if tukit_tx_init tk base \<noteq> 0 then
            failed (tukit_tx_init tk base) (Some (tukit_get_errmsg tk)) r
          else
            (case tukit_tx_get_snapshot tk of
               None \<Rightarrow> failed (- 1) (Some (tukit_get_errmsg tk)) r
             | Some snapid \<Rightarrow>
                 if tukit_tx_keep tk \<noteq> 0 then
                   failed (tukit_tx_keep tk) (Some (tukit_get_errmsg tk)) r
                 else if main_emit_result s < 0 then
                   failed (- 1) (Some ''Sending signal 'TransactionOpened' failed.'') r
                 else
                   \<lparr>h_ret = reply_result s, h_error = None, h_reply = Some [Str snapid],
                    h_reg = r, h_sent = [TransactionOpened_signal snapid],
                    h_unlocks = [], h_spawned = None\<rparr>))"

text \<open>
  The labels \<^verbatim>\<open>finish_close\<close> and \<^verbatim>\<open>finish_abort\<close>: the engine handle is
  freed and the entry unlocked.
\<close>

definition finish_close ::
  "int \<Rightarrow> string option \<Rightarrow> arg list option \<Rightarrow> registry \<Rightarrow> string \<Rightarrow> handler_result" where
  "finish_close ret err reply r transaction =
     \<lparr>h_ret = ret, h_error = err, h_reply = reply,
      h_reg = unlockSnapshot r transaction, h_sent = [],
      h_unlocks = [transaction], h_spawned = None\<rparr>"

definition transaction_close :: "tukit \<Rightarrow> sys \<Rightarrow> sd_bus_message \<Rightarrow> registry \<Rightarrow> handler_result" where
  "transaction_close tk s m r =
     (case sd_bus_message_read_s m of
        None \<Rightarrow> failed (- 1) (Some ''Could not read D-Bus parameters.'') r
      | Some transaction \<Rightarrow>
          (let l = lockSnapshot (alloc s) r transaction
           in if lock_ret l \<noteq> 0 then failed (lock_ret l) (lock_error l) (lock_reg l)
              else if \<not> tukit_new_tx tk then
                finish_close (lock_ret l) (Some (tukit_get_errmsg tk)) None (lock_reg l) transaction
              else if tukit_tx_resume tk transaction \<noteq> 0 then
                finish_close (tukit_tx_resume tk transaction) (Some (tukit_get_errmsg tk)) None
                  (lock_reg l) transaction
              else if tukit_tx_finalize tk \<noteq> 0 then
                finish_close (tukit_tx_finalize tk) (Some (tukit_get_errmsg tk)) None
                  (lock_reg l) transaction
              else
                finish_close (tukit_tx_finalize tk) None (Some [Int32 (tukit_tx_finalize tk)])
                  (lock_reg l) transaction))"

definition transaction_abort :: "tukit \<Rightarrow> sys \<Rightarrow> sd_bus_message \<Rightarrow> registry \<Rightarrow> handler_result" where
  "transaction_abort tk s m r =
     (case sd_bus_message_read_s m of
        None \<Rightarrow> failed (- 1) (Some ''Could not read D-Bus parameters.'') r
      | Some transaction \<Rightarrow>
          (let l = lockSnapshot (alloc s) r transaction
           in if lock_ret l \<noteq> 0 then failed (lock_ret l) (lock_error l) (lock_reg l)
              else if \<not> tukit_new_tx tk then
                finish_close (lock_ret l) (Some (tukit_get_errmsg tk)) None (lock_reg l) transaction
              else if tukit_tx_resume tk transaction \<noteq> 0 then
                finish_close (tukit_tx_resume tk transaction) (Some (tukit_get_errmsg tk)) None
                  (lock_reg l) transaction
              else
                finish_close (tukit_tx_resume tk transaction) None
                  (Some [Int32 (tukit_tx_resume tk transaction)]) (lock_reg l) transaction))"

text \<open>
  \<^verbatim>\<open>signalCallback\<close> and the match rule \<^verbatim>\<open>main\<close> installs for it: the rule
  names the object path \<^verbatim>\<open>/org/opensuse/tukit\<close> and leaves sender, interface and
  member open.
\<close>

definition signalCallback :: "sd_bus_message \<Rightarrow> registry \<Rightarrow> handler_result" where
  "signalCallback m r =
     (case sd_bus_message_read_s m of
        None \<Rightarrow> failed (- 1) (Some ''Could not read transaction ID.'') r
      | Some transaction \<Rightarrow>
          \<lparr>h_ret = 0, h_error = None, h_reply = None,
           h_reg = unlockSnapshot r transaction, h_sent = [],
           h_unlocks = [transaction], h_spawned = None\<rparr>)"

definition signal_matches :: "signal \<Rightarrow> bool" where
  "signal_matches sg = (sig_path sg = ''/org/opensuse/tukit'')"

definition deliver_signal :: "signal \<Rightarrow> registry \<Rightarrow> handler_result" where
  "deliver_signal sg r =
     (if signal_matches sg then signalCallback (sig_body sg) r
      else \<lparr>h_ret = 0, h_error = None, h_reply = None, h_reg = r, h_sent = [],
            h_unlocks = [], h_spawned = None\<rparr>)"

text \<open>The event loop delivering a list of signals, one after the other.\<close>

fun deliver_all :: "signal list \<Rightarrow> registry \<Rightarrow> registry \<times> string list" where
  "deliver_all [] r = (r, [])"
| "deliver_all (sg # sgs) r =
     (let h = deliver_signal sg r;
          (r', us) = deliver_all sgs (h_reg h)
      in (r', h_unlocks h @ us))"

section \<open>Starting a worker\<close>

text \<open>
  The loop \<^verbatim>\<open>while (activeTransaction->state != running) usleep(500);\<close> of
  \<^verbatim>\<open>execute\<close>. The handler is the only code of the event loop that runs, so the
  state the loop reads changes only if the worker writes it.
\<close>

partial_function (option) wait_running :: "transactionstates \<Rightarrow> unit option" where
  "wait_running st = (if st \<noteq> running then wait_running st else Some ())"

text \<open>
  \<^verbatim>\<open>execute\<close> looks for the last entry of the chain, the one
  \<^verbatim>\<open>lockSnapshot\<close> has just written, and hands the address of its state to the
  worker, whose first write sets it to \<^verbatim>\<open>running\<close>.
\<close>

fun last_state :: "registry \<Rightarrow> transactionstates option" where
  "last_state [] = None"
| "last_state [e] = Some (state_t e)"
| "last_state (e # es) = last_state es"

fun set_last_state :: "transactionstates \<Rightarrow> registry \<Rightarrow> registry" where
  "set_last_state st [] = []"
| "set_last_state st [e] = [e\<lparr>state_t := st\<rparr>]"
| "set_last_state st (e # es) = e # set_last_state st es"

text \<open>
  \<^verbatim>\<open>execute\<close>: \<open>None\<close> is the handler that never returns. When
  \<^verbatim>\<open>pthread_create\<close> fails there is no worker, the state stays as it is and the
  loop does not end.
\<close>

definition execute :: "sys \<Rightarrow> sd_bus_message \<Rightarrow> registry \<Rightarrow> int \<Rightarrow> handler_result option" where
  "execute s m r chrooted =
     (case sd_bus_message_read_ss m of
        None \<Rightarrow> Some (failed (- 1) (Some ''Could not read D-Bus parameters.'') r)
      | Some (transaction, command) \<Rightarrow>
          (let l = lockSnapshot (alloc s) r transaction
           in if lock_ret l \<noteq> 0 then Some (failed (lock_ret l) (lock_error l) (lock_reg l))
              else
                (let ret = pthread_create_result s;
                     r1 = (if ret = 0 then set_last_state running (lock_reg l) else lock_reg l)
                 in case last_state r1 of
                      None \<Rightarrow> None
                    | Some st \<Rightarrow>
                        (case wait_running st of
                           None \<Rightarrow> None
                         | Some u \<Rightarrow>
                             Some \<lparr>h_ret = ret, h_error = None, h_reply = None, h_reg = r1,
                                   h_sent = [], h_unlocks = [],
                                   h_spawned =
                                     (if ret = 0 then
                                        Some \<lparr>ea_transaction = transaction,
                                              ea_command = command,
                                              ea_chrooted = chrooted\<rparr>
                                      else None)\<rparr>))))"

text \<open>
  \<^verbatim>\<open>transaction_call\<close> and \<^verbatim>\<open>transaction_callext\<close>: the empty reply is
  sent when \<^verbatim>\<open>execute\<close> returned 0.
\<close>

definition reply_empty :: "sys \<Rightarrow> handler_result \<Rightarrow> handler_result" where
  "reply_empty s h =
     (if h_ret h \<noteq> 0 then h else h\<lparr>h_ret := reply_result s, h_reply := Some []\<rparr>)"

definition transaction_call :: "sys \<Rightarrow> sd_bus_message \<Rightarrow> registry \<Rightarrow> handler_result option" where
  "transaction_call s m r = map_option (reply_empty s) (execute s m r 1)"

definition transaction_callext :: "sys \<Rightarrow> sd_bus_message \<Rightarrow> registry \<Rightarrow> handler_result option" where
  "transaction_callext s m r = map_option (reply_empty s) (execute s m r 0)"

section \<open>Termination requests\<close>

text \<open>
  \<^verbatim>\<open>event_handler\<close> is registered for \<^verbatim>\<open>SIGTERM\<close> and for
  \<^verbatim>\<open>SIGINT\<close>. It reads two fields of the \<^verbatim>\<open>signalfd_siginfo\<close> it is
  given: the signal number and \<^verbatim>\<open>ssi_pid\<close>, the process id of the sender of the
  signal.
\<close>

record signalfd_siginfo =
  ssi_signo :: nat
  ssi_pid :: nat

datatype action =
    Print string
  | Print_err string
  | Sleep nat
  | Kill nat nat
  | Event_exit int

text \<open>The handler either returns to the event loop or ends the process.\<close>

datatype outcome = Returns int | Exits int

text \<open>
  \<open>exit_result\<close> is what \<^verbatim>\<open>sd_event_exit\<close> returns. \<open>Kill p n\<close> is the call
  \<^verbatim>\<open>kill(p, n)\<close>, \<open>Event_exit c\<close> the call of \<^verbatim>\<open>sd_event_exit\<close> with
  the exit code \<open>c\<close>.
\<close>

definition event_handler :: "int \<Rightarrow> signalfd_siginfo \<Rightarrow> registry \<Rightarrow> action list \<times> outcome" where
  "event_handler exit_result si r =
     (if r \<noteq> [] then
        ([Print ''Waiting for remaining transactions to finish...'',
          Sleep 1,
          Kill (ssi_pid si) (ssi_signo si)],
         Returns 0)
      else if exit_result < 0 then
        ([Print ''Terminating.'', Event_exit 0, Print_err ''Cannot exit the main loop!''],
         Exits 1)
      else
        ([Print ''Terminating.'', Event_exit 0], Returns 0))"

section \<open>Startup and exit status\<close>

text \<open>
  The results of the calls \<^verbatim>\<open>main\<close> makes, in the order it makes them;
  \<open>st_malloc\<close> is \<open>False\<close> when the allocation of the first placeholder fails,
  \<open>st_event_loop\<close> is what \<^verbatim>\<open>sd_event_loop\<close> returns: the exit code given to
  \<^verbatim>\<open>sd_event_exit\<close>, or a negative error.
\<close>

record startup =
  st_malloc :: bool
  st_open_system :: int
  st_add_object_vtable :: int
  st_request_name :: int
  st_match_signal :: int
  st_event_default :: int
  st_sigemptyset :: int
  st_sigaddset_term :: int
  st_sigaddset_int :: int
  st_sigprocmask :: int
  st_add_signal_term :: int
  st_add_signal_int :: int
  st_attach_event :: int
  st_event_loop :: int

definition EXIT_SUCCESS :: int where
  "EXIT_SUCCESS = 0"

definition EXIT_FAILURE :: int where
  "EXIT_FAILURE = 1"

text \<open>
  The value of \<^verbatim>\<open>ret\<close> when \<^verbatim>\<open>main\<close> reaches the label
  \<^verbatim>\<open>finish\<close>, with the start of the message it printed on the way (if any).
\<close>

definition main_ret :: "startup \<Rightarrow> int \<times> string option" where
  "main_ret st =
     (if \<not> st_malloc st then (1, Some ''malloc failed for TransactionEntry.'')
      else if st_open_system st < 0 then
        (st_open_system st, Some ''Failed to connect to system bus'')
      else if st_add_object_vtable st < 0 then
        (st_add_object_vtable st, Some ''Failed to issue method call'')
      else if st_request_name st < 0 then
        (st_request_name st, Some ''Failed to acquire service name'')
      else if st_match_signal st < 0 then
        (st_match_signal st, Some ''Failed to register DBus signal listener'')
      else if st_event_default st < 0 then
        (st_event_default st, Some ''Failed to create default event loop'')
      else if st_sigemptyset st < 0 \<or> st_sigaddset_term st < 0 \<or> st_sigaddset_int st < 0 then
        (st_event_default st, Some ''Failed to set the signal set'')
      else if st_sigprocmask st < 0 then
        (st_event_default st, Some ''Failed to block the signals'')
      else if st_add_signal_term st < 0 then
        (st_add_signal_term st, Some ''Could not add signal handler for SIGTERM to event loop'')
      else if st_add_signal_int st < 0 then
        (st_add_signal_int st, Some ''Could not add signal handler for SIGINT to event loop'')
      else if st_attach_event st < 0 then
        (st_attach_event st, Some ''Could not add sd-bus handling to event bus'')
      else if st_event_loop st < 0 then
        (st_event_loop st, Some ''Error while running event loop'')
      else (st_event_loop st, None))"

text \<open>\<^verbatim>\<open>return ret < 0 ? EXIT_FAILURE : EXIT_SUCCESS;\<close>\<close>

definition main :: "startup \<Rightarrow> int" where
  "main st = (if fst (main_ret st) < 0 then EXIT_FAILURE else EXIT_SUCCESS)"

text \<open>Every call of the startup sequence succeeded.\<close>

definition startup_ok :: "startup \<Rightarrow> bool" where
  "startup_ok st =
     (st_malloc st \<and> 0 \<le> st_open_system st \<and> 0 \<le> st_add_object_vtable st \<and>
      0 \<le> st_request_name st \<and> 0 \<le> st_match_signal st \<and> 0 \<le> st_event_default st \<and>
      0 \<le> st_sigemptyset st \<and> 0 \<le> st_sigaddset_term st \<and> 0 \<le> st_sigaddset_int st \<and>
      0 \<le> st_sigprocmask st \<and> 0 \<le> st_add_signal_term st \<and> 0 \<le> st_add_signal_int st \<and>
      0 \<le> st_attach_event st)"


section \<open>A concrete environment\<close>

text \<open>
  An engine whose calls all succeed: the command returns 0 with the output \<open>hi\<close>, the
  snapshot \<^verbatim>\<open>Open\<close> creates is \<open>7\<close>. An operating system whose calls all
  succeed; its \<open>wordexp\<close> stands for the expansion of a command of one word.
\<close>

definition example_engine :: tukit where
  "example_engine =
     \<lparr>tukit_new_tx = True,
      tukit_tx_init = (\<lambda>base. 0),
      tukit_tx_get_snapshot = Some ''7'',
      tukit_tx_resume = (\<lambda>transaction. 0),
      tukit_tx_execute = (\<lambda>argv. (0, ''hi'')),
      tukit_tx_call_ext = (\<lambda>argv. (0, ''hi'')),
      tukit_tx_keep = 0,
      tukit_tx_finalize = 0,
      tukit_get_errmsg = ''engine error''\<rparr>"

definition example_sys :: sys where
  "example_sys =
     \<lparr>alloc = \<lparr>malloc_ok = True, strdup_ok = True\<rparr>,
      wordexp = (\<lambda>command. (0, [command])),
      connect_result = (\<lambda>n. 0),
      emit_result = (\<lambda>n. 0),
      main_emit_result = 0,
      reply_result = 0,
      pthread_create_result = 0\<rparr>"

section \<open>Properties of the registry\<close>

lemma lockSnapshot_busy:
  "transaction \<in> set (ids r) \<Longrightarrow>
   lock_ret (lockSnapshot a r transaction) = - EBUSY \<and>
   lock_reg (lockSnapshot a r transaction) = r"
  by (induction r) (auto simp: ids_def Let_def)

lemma lockSnapshot_free:
  "transaction \<notin> set (ids r) \<Longrightarrow>
   lockSnapshot a r transaction =
     (if \<not> malloc_ok a then
        \<lparr>lock_ret = - ENOMEM,
         lock_error = Some ''Error while allocating space for transaction.'',
         lock_reg = r\<rparr>
      else if \<not> strdup_ok a then
        \<lparr>lock_ret = - ENOMEM,
         lock_error = Some ''Error during strdup.'',
         lock_reg = r\<rparr>
      else
        \<lparr>lock_ret = 0,
         lock_error = None,
         lock_reg = r @ [\<lparr>id_t = transaction, state_t = queued\<rparr>]\<rparr>)"
  by (induction r) (auto simp: ids_def Let_def)

lemma ids_unlockSnapshot:
  "ids (unlockSnapshot r transaction) = remove1 transaction (ids r)"
  by (induction r) (auto simp: ids_def split: list.splits)

lemma unlockSnapshot_absent:
  "transaction \<notin> set (ids r) \<Longrightarrow> unlockSnapshot r transaction = r"
  by (induction r) (auto simp: ids_def)

lemma unique_ids_lockSnapshot:
  "unique_ids r \<Longrightarrow> unique_ids (lock_reg (lockSnapshot a r transaction))"
proof (cases "transaction \<in> set (ids r)")
  case True
  assume "unique_ids r"
  with lockSnapshot_busy [OF True] show ?thesis by simp
next
  case False
  assume "unique_ids r"
  with False show ?thesis
    by (simp add: lockSnapshot_free [OF False] unique_ids_def ids_def)
qed

lemma unique_ids_unlockSnapshot:
  "unique_ids r \<Longrightarrow> unique_ids (unlockSnapshot r transaction)"
  by (simp add: unique_ids_def ids_unlockSnapshot)

lemma unlockSnapshot_removes:
  "unique_ids r \<Longrightarrow> transaction \<notin> set (ids (unlockSnapshot r transaction))"
  by (simp add: unique_ids_def ids_unlockSnapshot)

lemma lockSnapshot_ok_absent:
  "lock_ret (lockSnapshot a r transaction) = 0 \<Longrightarrow> transaction \<notin> set (ids r)"
  using lockSnapshot_busy [of transaction r a] by (auto simp: EBUSY_def)

section \<open>The claims about the registry\<close>

text \<open>
  C1, the first half (mutual exclusion): for every registry, every identifier and every
  behaviour of the allocator, \<^verbatim>\<open>lockSnapshot\<close> on an identifier that has an entry
  returns \<^verbatim>\<open>-EBUSY\<close> and leaves the whole registry, the existing entry included,
  as it was. The second half as the claim states it (after \<^verbatim>\<open>unlockSnapshot\<close> of
  the identifier the next \<^verbatim>\<open>lockSnapshot\<close> of it succeeds) is false when an
  allocation fails: with a failing \<^verbatim>\<open>malloc\<close> the call after the release returns
  \<^verbatim>\<open>-ENOMEM\<close> and inserts nothing.
\<close>

theorem lock_after_unlock_nomem_counterexample:
  "lock_ret
     (lockSnapshot \<lparr>malloc_ok = False, strdup_ok = True\<rparr>
        (unlockSnapshot [\<lparr>id_t = ''1'', state_t = running\<rparr>] ''1'') ''1'') = - 12 \<and>
   lock_reg
     (lockSnapshot \<lparr>malloc_ok = False, strdup_ok = True\<rparr>
        (unlockSnapshot [\<lparr>id_t = ''1'', state_t = running\<rparr>] ''1'') ''1'') = []"
  by (simp add: ENOMEM_def)

text \<open>
  C1 as amended: in a registry with at most one entry per identifier,
  \<^verbatim>\<open>lockSnapshot\<close> on an identifier that has an entry returns \<^verbatim>\<open>-EBUSY\<close>
  and leaves the registry unchanged; after \<^verbatim>\<open>unlockSnapshot\<close> of the identifier
  the next \<^verbatim>\<open>lockSnapshot\<close> of it never returns \<^verbatim>\<open>-EBUSY\<close>: if both
  allocations succeed it returns 0 and appends a new entry in state \<^verbatim>\<open>queued\<close>,
  otherwise it returns \<^verbatim>\<open>-ENOMEM\<close> and changes nothing.
\<close>

theorem lock_mutual_exclusion:
  "(transaction \<in> set (ids r) \<longrightarrow>
      lock_ret (lockSnapshot a r transaction) = - EBUSY \<and>
      lock_reg (lockSnapshot a r transaction) = r) \<and>
   (unique_ids r \<longrightarrow>
      lock_ret (lockSnapshot a (unlockSnapshot r transaction) transaction) \<noteq> - EBUSY \<and>
      (malloc_ok a \<and> strdup_ok a \<longrightarrow>
         lock_ret (lockSnapshot a (unlockSnapshot r transaction) transaction) = 0 \<and>
         lock_reg (lockSnapshot a (unlockSnapshot r transaction) transaction) =
           unlockSnapshot r transaction @ [\<lparr>id_t = transaction, state_t = queued\<rparr>]) \<and>
      (\<not> (malloc_ok a \<and> strdup_ok a) \<longrightarrow>
         lock_ret (lockSnapshot a (unlockSnapshot r transaction) transaction) = - ENOMEM \<and>
         lock_reg (lockSnapshot a (unlockSnapshot r transaction) transaction) =
           unlockSnapshot r transaction))"
proof (intro conjI impI)
  assume "transaction \<in> set (ids r)"
  then show "lock_ret (lockSnapshot a r transaction) = - EBUSY"
    and "lock_reg (lockSnapshot a r transaction) = r"
    by (simp_all add: lockSnapshot_busy)
next
  assume u: "unique_ids r"
  note free = lockSnapshot_free [OF unlockSnapshot_removes [OF u], of a]
  show "lock_ret (lockSnapshot a (unlockSnapshot r transaction) transaction) \<noteq> - EBUSY"
    by (simp add: free EBUSY_def ENOMEM_def)
  {
    assume "malloc_ok a \<and> strdup_ok a"
    then show "lock_ret (lockSnapshot a (unlockSnapshot r transaction) transaction) = 0"
      and "lock_reg (lockSnapshot a (unlockSnapshot r transaction) transaction) =
           unlockSnapshot r transaction @ [\<lparr>id_t = transaction, state_t = queued\<rparr>]"
      by (simp_all add: free)
  }
  {
    assume "\<not> (malloc_ok a \<and> strdup_ok a)"
    then show "lock_ret (lockSnapshot a (unlockSnapshot r transaction) transaction) = - ENOMEM"
      and "lock_reg (lockSnapshot a (unlockSnapshot r transaction) transaction) =
           unlockSnapshot r transaction"
      by (auto simp add: free)
  }
qed

theorem lock_mutual_exclusion_witness:
  "''1'' \<in> set (ids [\<lparr>id_t = ''1'', state_t = running\<rparr>]) \<and>
   unique_ids [\<lparr>id_t = ''1'', state_t = running\<rparr>] \<and>
   lock_ret (lockSnapshot \<lparr>malloc_ok = True, strdup_ok = True\<rparr>
      [\<lparr>id_t = ''1'', state_t = running\<rparr>] ''1'') = - EBUSY \<and>
   lock_reg (lockSnapshot \<lparr>malloc_ok = True, strdup_ok = True\<rparr>
      [\<lparr>id_t = ''1'', state_t = running\<rparr>] ''1'') = [\<lparr>id_t = ''1'', state_t = running\<rparr>] \<and>
   lock_ret (lockSnapshot \<lparr>malloc_ok = True, strdup_ok = True\<rparr>
      (unlockSnapshot [\<lparr>id_t = ''1'', state_t = running\<rparr>] ''1'') ''1'') = 0 \<and>
   lock_reg (lockSnapshot \<lparr>malloc_ok = True, strdup_ok = True\<rparr>
      (unlockSnapshot [\<lparr>id_t = ''1'', state_t = running\<rparr>] ''1'') ''1'') =
     [\<lparr>id_t = ''1'', state_t = queued\<rparr>]"
  using lock_mutual_exclusion
    [of "''1''" "[\<lparr>id_t = ''1'', state_t = running\<rparr>]" "\<lparr>malloc_ok = True, strdup_ok = True\<rparr>"]
  by (simp add: ids_def unique_ids_def)

text \<open>
  C3 (uniqueness invariant): the registry \<^verbatim>\<open>main\<close> starts with has at most one
  entry per identifier, and \<^verbatim>\<open>lockSnapshot\<close> (whatever it returns) and
  \<^verbatim>\<open>unlockSnapshot\<close> keep it so. A \<^verbatim>\<open>lockSnapshot\<close> that returns 0 was
  called on an identifier without an entry, and afterwards the identifier has exactly one.
\<close>

theorem registry_unique_ids_invariant:
  "unique_ids [] \<and>
   (unique_ids r \<longrightarrow>
      unique_ids (lock_reg (lockSnapshot a r transaction)) \<and>
      unique_ids (unlockSnapshot r transaction) \<and>
      (lock_ret (lockSnapshot a r transaction) = 0 \<longrightarrow>
         transaction \<notin> set (ids r) \<and>
         count_list (ids (lock_reg (lockSnapshot a r transaction))) transaction = 1))"
proof (intro conjI impI)
  show "unique_ids []" by (simp add: unique_ids_def ids_def)
next
  assume "unique_ids r"
  then show "unique_ids (lock_reg (lockSnapshot a r transaction))"
    by (rule unique_ids_lockSnapshot)
next
  assume "unique_ids r"
  then show "unique_ids (unlockSnapshot r transaction)"
    by (rule unique_ids_unlockSnapshot)
next
  assume "lock_ret (lockSnapshot a r transaction) = 0"
  then show "transaction \<notin> set (ids r)" by (rule lockSnapshot_ok_absent)
next
  assume ok: "lock_ret (lockSnapshot a r transaction) = 0"
  have absent: "transaction \<notin> set (ids r)" using ok by (rule lockSnapshot_ok_absent)
  have "lock_reg (lockSnapshot a r transaction) = r @ [\<lparr>id_t = transaction, state_t = queued\<rparr>]"
    using ok by (simp add: lockSnapshot_free [OF absent] ENOMEM_def split: if_splits)
  with absent show "count_list (ids (lock_reg (lockSnapshot a r transaction))) transaction = 1"
    by (simp add: ids_def count_list_0_iff)
qed

theorem registry_unique_ids_invariant_witness:
  "unique_ids [\<lparr>id_t = ''1'', state_t = running\<rparr>] \<and>
   lock_ret (lockSnapshot \<lparr>malloc_ok = True, strdup_ok = True\<rparr>
      [\<lparr>id_t = ''1'', state_t = running\<rparr>] ''2'') = 0 \<and>
   unique_ids (lock_reg (lockSnapshot \<lparr>malloc_ok = True, strdup_ok = True\<rparr>
      [\<lparr>id_t = ''1'', state_t = running\<rparr>] ''2'')) \<and>
   unique_ids (unlockSnapshot [\<lparr>id_t = ''1'', state_t = running\<rparr>] ''2'') \<and>
   ''2'' \<notin> set (ids [\<lparr>id_t = ''1'', state_t = running\<rparr>]) \<and>
   count_list (ids (lock_reg (lockSnapshot \<lparr>malloc_ok = True, strdup_ok = True\<rparr>
      [\<lparr>id_t = ''1'', state_t = running\<rparr>] ''2''))) ''2'' = 1"
  using registry_unique_ids_invariant
    [of "[\<lparr>id_t = ''1'', state_t = running\<rparr>]" "\<lparr>malloc_ok = True, strdup_ok = True\<rparr>" "''2''"]
  by (simp add: ids_def unique_ids_def Let_def)

text \<open>
  C4 (idempotent unlock): \<^verbatim>\<open>unlockSnapshot\<close> on an identifier that has no entry
  returns the registry it was given, entry for entry.
\<close>

theorem unlock_absent_is_noop:
  "transaction \<notin> set (ids r) \<Longrightarrow> unlockSnapshot r transaction = r"
  by (rule unlockSnapshot_absent)

theorem unlock_absent_is_noop_witness:
  "''2'' \<notin> set (ids [\<lparr>id_t = ''1'', state_t = running\<rparr>, \<lparr>id_t = ''3'', state_t = queued\<rparr>]) \<and>
   unlockSnapshot [\<lparr>id_t = ''1'', state_t = running\<rparr>, \<lparr>id_t = ''3'', state_t = queued\<rparr>] ''2'' =
     [\<lparr>id_t = ''1'', state_t = running\<rparr>, \<lparr>id_t = ''3'', state_t = queued\<rparr>]"
proof -
  have h: "''2'' \<notin> set (ids [\<lparr>id_t = ''1'', state_t = running\<rparr>, \<lparr>id_t = ''3'', state_t = queued\<rparr>])"
    by (simp add: ids_def)
  show ?thesis using h unlock_absent_is_noop [OF h] by simp
qed

section \<open>Exit status and termination requests\<close>

lemma main_orderly:
  "startup_ok st \<Longrightarrow> 0 \<le> st_event_loop st \<Longrightarrow> main st = EXIT_SUCCESS"
  by (simp add: main_def main_ret_def startup_ok_def)

lemma main_bus_step_fails:
  "st_malloc st \<Longrightarrow>
   st_open_system st < 0 \<or>
   (0 \<le> st_open_system st \<and> st_add_object_vtable st < 0) \<or>
   (0 \<le> st_open_system st \<and> 0 \<le> st_add_object_vtable st \<and> st_request_name st < 0) \<or>
   (0 \<le> st_open_system st \<and> 0 \<le> st_add_object_vtable st \<and> 0 \<le> st_request_name st \<and>
      st_match_signal st < 0) \<Longrightarrow>
   main st = EXIT_FAILURE"
  by (auto simp add: main_def main_ret_def)

lemma main_add_signal_fails:
  "startup_ok st \<Longrightarrow> e < 0 \<Longrightarrow>
   main (st\<lparr>st_add_signal_term := e\<rparr>) = EXIT_FAILURE \<and>
   main (st\<lparr>st_add_signal_int := e\<rparr>) = EXIT_FAILURE"
  by (simp add: main_def main_ret_def startup_ok_def)

lemma main_malloc_fails: "\<not> st_malloc st \<Longrightarrow> main st = EXIT_SUCCESS"
  by (simp add: main_def main_ret_def)

lemma main_signal_blocking_fails:
  "startup_ok st \<Longrightarrow> e < 0 \<Longrightarrow> main (st\<lparr>st_sigprocmask := e\<rparr>) = EXIT_SUCCESS"
  by (simp add: main_def main_ret_def startup_ok_def)

text \<open>
  C7 at two failing startups. When the allocation of the registry fails, \<^verbatim>\<open>ret\<close>
  still holds its initial value 1, which the final test \<^verbatim>\<open>ret < 0\<close> maps to
  \<^verbatim>\<open>EXIT_SUCCESS\<close>; when \<^verbatim>\<open>sigprocmask\<close> fails, \<^verbatim>\<open>ret\<close> holds the
  result of \<^verbatim>\<open>sd_event_default\<close>, which is not negative. In both cases the
  process prints its error message and exits with status 0.
\<close>

theorem main_exit_status_after_failed_startup:
  "main \<lparr>st_malloc = False, st_open_system = 0, st_add_object_vtable = 0,
         st_request_name = 0, st_match_signal = 0, st_event_default = 0,
         st_sigemptyset = 0, st_sigaddset_term = 0, st_sigaddset_int = 0,
         st_sigprocmask = 0, st_add_signal_term = 0, st_add_signal_int = 0,
         st_attach_event = 0, st_event_loop = 0\<rparr> = 0 \<and>
   main_ret \<lparr>st_malloc = False, st_open_system = 0, st_add_object_vtable = 0,
         st_request_name = 0, st_match_signal = 0, st_event_default = 0,
         st_sigemptyset = 0, st_sigaddset_term = 0, st_sigaddset_int = 0,
         st_sigprocmask = 0, st_add_signal_term = 0, st_add_signal_int = 0,
         st_attach_event = 0, st_event_loop = 0\<rparr> =
     (1, Some ''malloc failed for TransactionEntry.'') \<and>
   main \<lparr>st_malloc = True, st_open_system = 0, st_add_object_vtable = 0,
         st_request_name = 1, st_match_signal = 0, st_event_default = 0,
         st_sigemptyset = 0, st_sigaddset_term = 0, st_sigaddset_int = 0,
         st_sigprocmask = - 1, st_add_signal_term = 0, st_add_signal_int = 0,
         st_attach_event = 0, st_event_loop = 0\<rparr> = 0 \<and>
   main_ret \<lparr>st_malloc = True, st_open_system = 0, st_add_object_vtable = 0,
         st_request_name = 1, st_match_signal = 0, st_event_default = 0,
         st_sigemptyset = 0, st_sigaddset_term = 0, st_sigaddset_int = 0,
         st_sigprocmask = - 1, st_add_signal_term = 0, st_add_signal_int = 0,
         st_attach_event = 0, st_event_loop = 0\<rparr> =
     (0, Some ''Failed to block the signals'')"
  by (simp add: main_def main_ret_def EXIT_SUCCESS_def)

lemma event_handler_kill_target:
  "r \<noteq> [] \<Longrightarrow>
   fst (event_handler x si r) =
     [Print ''Waiting for remaining transactions to finish...'', Sleep 1,
      Kill (ssi_pid si) (ssi_signo si)]"
  by (simp add: event_handler_def)




section \<open>The worker, the handlers and the signals they emit\<close>

lemma emitted_append: "emitted (xs @ ys) = emitted xs @ emitted ys"
  by (induction xs rule: emitted.induct) auto

lemma attempted_append: "attempted (xs @ ys) = attempted xs @ attempted ys"
  by (induction xs rule: attempted.induct) auto

lemma record_event_proj:
  "trace (record_event e w) = trace w @ [e]"
  "fault (record_event e w) = fault w"
  "open_buses (record_event e w) = open_buses w"
  "n_connect (record_event e w) = n_connect w"
  "n_emit (record_event e w) = n_emit w"
  by (simp_all add: record_event_def)

lemma get_bus_proj:
  "fst (get_bus s w) =
     (if connect_result s (n_connect w) < 0 then None else Some (Bus (n_connect w)))"
  "trace (snd (get_bus s w)) = trace w @ [Connect (connect_result s (n_connect w))]"
  "fault (snd (get_bus s w)) = fault w"
  "open_buses (snd (get_bus s w)) =
     (if connect_result s (n_connect w) < 0 then open_buses w
      else Bus (n_connect w) # open_buses w)"
  "n_connect (snd (get_bus s w)) = Suc (n_connect w)"
  "n_emit (snd (get_bus s w)) = n_emit w"
  by (simp_all add: get_bus_def Let_def record_event_def)

lemma emit_proj:
  "fst (sd_bus_emit_signal s bus sg w) =
     (case bus of None \<Rightarrow> - EINVAL | Some b \<Rightarrow> emit_result s (n_emit w))"
  "trace (snd (sd_bus_emit_signal s bus sg w)) =
     trace w @ [Emit sg (case bus of None \<Rightarrow> - EINVAL | Some b \<Rightarrow> emit_result s (n_emit w))]"
  "fault (snd (sd_bus_emit_signal s bus sg w)) = fault w"
  "open_buses (snd (sd_bus_emit_signal s bus sg w)) = open_buses w"
  "n_connect (snd (sd_bus_emit_signal s bus sg w)) = n_connect w"
  "n_emit (snd (sd_bus_emit_signal s bus sg w)) =
     (case bus of None \<Rightarrow> n_emit w | Some b \<Rightarrow> Suc (n_emit w))"
  by (cases bus; simp add: sd_bus_emit_signal_def Let_def record_event_def)+

lemma flush_proj:
  "sd_bus_flush_close_unref None w = w"
  "trace (sd_bus_flush_close_unref (Some b) w) =
     trace w @ (if fault w then [] else if b \<in> set (open_buses w) then [Release b]
                else [Use_after_free b])"
  "fault (sd_bus_flush_close_unref (Some b) w) = (fault w \<or> b \<notin> set (open_buses w))"
  "open_buses (sd_bus_flush_close_unref (Some b) w) =
     (if fault w \<or> b \<notin> set (open_buses w) then open_buses w
      else removeAll b (open_buses w))"
  "n_connect (sd_bus_flush_close_unref bus w) = n_connect w"
  "n_emit (sd_bus_flush_close_unref bus w) = n_emit w"
  by (cases bus; simp add: sd_bus_flush_close_unref_def record_event_def)+

lemma send_error_signal_None_proj:
  "fst (send_error_signal s None t m e w) =
     (if connect_result s (n_connect w) < 0 then - EINVAL else emit_result s (n_emit w))"
  "fault (snd (send_error_signal s None t m e w)) = fault w"
  "trace (snd (send_error_signal s None t m e w)) =
     trace w @
       [Connect (connect_result s (n_connect w)),
        Emit (Error_signal t m e)
          (if connect_result s (n_connect w) < 0 then - EINVAL else emit_result s (n_emit w))] @
       (if connect_result s (n_connect w) < 0 \<or> fault w then []
        else [Release (Bus (n_connect w))])"
  by (simp_all add: send_error_signal_def case_prod_beta get_bus_proj emit_proj flush_proj
      record_event_proj)

lemma send_error_signal_Some_proj:
  "fst (send_error_signal s (Some b) t m e w) = emit_result s (n_emit w)"
  "fault (snd (send_error_signal s (Some b) t m e w)) = (fault w \<or> b \<notin> set (open_buses w))"
  "open_buses (snd (send_error_signal s (Some b) t m e w)) =
     (if fault w \<or> b \<notin> set (open_buses w) then open_buses w
      else removeAll b (open_buses w))"
  "trace (snd (send_error_signal s (Some b) t m e w)) =
     trace w @ [Emit (Error_signal t m e) (emit_result s (n_emit w))] @
       (if fault w then [] else if b \<in> set (open_buses w) then [Release b]
        else [Use_after_free b])"
  by (simp_all add: send_error_signal_def case_prod_beta get_bus_proj emit_proj flush_proj
      record_event_proj)

lemma finish_execute_proj:
  "fst (finish_execute bus ret w) = ret"
  "fault (snd (finish_execute None ret w)) = fault w"
  "fault (snd (finish_execute (Some b) ret w)) = (fault w \<or> b \<notin> set (open_buses w))"
  "trace (snd (finish_execute None ret w)) = trace w @ (if fault w then [] else [Free_tx])"
  "trace (snd (finish_execute (Some b) ret w)) =
     trace w @ (if fault w then [] else if b \<in> set (open_buses w) then [Release b, Free_tx]
                else [Use_after_free b])"
  by (simp_all add: finish_execute_def Let_def flush_proj record_event_proj)

lemma emitted_send_error_signal:
  "emitted (trace (snd (send_error_signal s bus t m e w))) =
     emitted (trace w) @
       (if 0 \<le> fst (send_error_signal s bus t m e w) then [Error_signal t m e] else [])"
  by (cases bus)
     (simp_all add: send_error_signal_None_proj send_error_signal_Some_proj emitted_append
        EINVAL_def)

lemma attempted_send_error_signal:
  "attempted (trace (snd (send_error_signal s bus t m e w))) =
     attempted (trace w) @ [Error_signal t m e]"
  by (cases bus)
     (simp_all add: send_error_signal_None_proj send_error_signal_Some_proj attempted_append)

lemma emitted_finish_execute:
  "emitted (trace (snd (finish_execute bus ret w))) = emitted (trace w)"
  by (cases bus) (simp_all add: finish_execute_proj emitted_append)

lemma attempted_finish_execute:
  "attempted (trace (snd (finish_execute bus ret w))) = attempted (trace w)"
  by (cases bus) (simp_all add: finish_execute_proj attempted_append)

lemma emitted_emit_signal:
  "emitted (trace (snd (sd_bus_emit_signal s bus sg w))) =
     emitted (trace w) @ (if 0 \<le> fst (sd_bus_emit_signal s bus sg w) then [sg] else [])"
  by (cases bus) (simp_all add: emit_proj emitted_append EINVAL_def)

lemma attempted_emit_signal:
  "attempted (trace (snd (sd_bus_emit_signal s bus sg w))) = attempted (trace w) @ [sg]"
  by (cases bus) (simp_all add: emit_proj attempted_append)

lemma emitted_get_bus: "emitted (trace (snd (get_bus s w))) = emitted (trace w)"
  by (simp add: get_bus_proj emitted_append)

lemma attempted_get_bus: "attempted (trace (snd (get_bus s w))) = attempted (trace w)"
  by (simp add: get_bus_proj attempted_append)

lemma emitted_record_event:
  "emitted (trace (record_event e w)) =
     emitted (trace w) @ (case e of Emit sg r \<Rightarrow> if 0 \<le> r then [sg] else [] | _ \<Rightarrow> [])"
  by (cases e) (simp_all add: record_event_def emitted_append)

lemma attempted_record_event:
  "attempted (trace (record_event e w)) =
     attempted (trace w) @ (case e of Emit sg r \<Rightarrow> [sg] | _ \<Rightarrow> [])"
  by (cases e) (simp_all add: record_event_def attempted_append)

lemmas emitted_simps = emitted_finish_execute emitted_send_error_signal emitted_emit_signal
  emitted_get_bus emitted_record_event

lemmas attempted_simps = attempted_finish_execute attempted_send_error_signal
  attempted_emit_signal attempted_get_bus attempted_record_event

lemmas proj_simps = record_event_proj get_bus_proj emit_proj flush_proj
  send_error_signal_None_proj send_error_signal_Some_proj finish_execute_proj

lemma emitted_run_command:
  "emitted (trace (snd (run_command tk s t chrooted argv w))) = emitted (trace w) \<or>
   (\<exists>msg e. emitted (trace (snd (run_command tk s t chrooted argv w))) =
       emitted (trace w) @ [Error_signal t msg e]) \<or>
   (\<exists>c out. emitted (trace (snd (run_command tk s t chrooted argv w))) =
       emitted (trace w) @ [CommandExecuted_signal t c out])"
  by (auto simp add: run_command_def Let_def case_prod_beta emitted_simps)

lemma worker_emitted_cases:
  "emitted (trace (snd (execution_func tk s ea io_start))) = [] \<or>
   (\<exists>msg e. emitted (trace (snd (execution_func tk s ea io_start))) =
       [Error_signal (ea_transaction ea) msg e]) \<or>
   (\<exists>c out. emitted (trace (snd (execution_func tk s ea io_start))) =
       [CommandExecuted_signal (ea_transaction ea) c out])"
  using emitted_run_command [of tk s "ea_transaction ea" "ea_chrooted ea"
      "snd (wordexp s (ea_command ea))"
      "record_event (Wordexp (ea_command ea))
         (record_event (Tx_resume (ea_transaction ea)) (record_event New_tx io_start))"]
  by (auto simp add: execution_func_def Let_def case_prod_beta emitted_simps io_start_def)


lemma daemon_signals_match:
  "signal_matches (Error_signal t msg e) \<and>
   sd_bus_message_read_s (sig_body (Error_signal t msg e)) = Some t \<and>
   signal_matches (CommandExecuted_signal t c out) \<and>
   sd_bus_message_read_s (sig_body (CommandExecuted_signal t c out)) = Some t \<and>
   signal_matches (TransactionOpened_signal t) \<and>
   sd_bus_message_read_s (sig_body (TransactionOpened_signal t)) = Some t"
  by (simp add: signal_matches_def Error_signal_def CommandExecuted_signal_def
      TransactionOpened_signal_def)

lemma deliver_signal_unlocks:
  "signal_matches sg \<Longrightarrow> sd_bus_message_read_s (sig_body sg) = Some t \<Longrightarrow>
   h_unlocks (deliver_signal sg r) = [t] \<and> h_reg (deliver_signal sg r) = unlockSnapshot r t"
  by (simp add: deliver_signal_def signalCallback_def)

lemma unlockSnapshot_last:
  "t \<notin> set (ids r) \<Longrightarrow> unlockSnapshot (r @ [\<lparr>id_t = t, state_t = st\<rparr>]) t = r"
  by (induction r) (auto simp: ids_def)

lemma lockSnapshot_ok_reg:
  "lock_ret (lockSnapshot a r t) = 0 \<Longrightarrow>
   lock_reg (lockSnapshot a r t) = r @ [\<lparr>id_t = t, state_t = queued\<rparr>]"
  using lockSnapshot_free [OF lockSnapshot_ok_absent, of a r t]
  by (simp add: ENOMEM_def split: if_splits)

lemma wait_running_running: "wait_running running = Some ()"
  by (subst wait_running.simps) simp

lemma wait_running_Some: "wait_running st = Some u \<Longrightarrow> st = running"
  by (rule wait_running.raw_induct [where P = "\<lambda>st u. st = running"])
     (auto split: if_splits)

lemma wait_running_None: "st \<noteq> running \<Longrightarrow> wait_running st = None"
  using wait_running_Some [of st] by (cases "wait_running st") auto

lemma last_state_append: "last_state (r @ [e]) = Some (state_t e)"
  by (induction r rule: last_state.induct) auto

lemma set_last_state_append: "set_last_state st (r @ [e]) = r @ [e\<lparr>state_t := st\<rparr>]"
  by (induction r rule: last_state.induct) auto

lemma execute_started:
  "sd_bus_message_read_ss m = Some (t, c) \<Longrightarrow> lock_ret (lockSnapshot (alloc s) r t) = 0 \<Longrightarrow>
   pthread_create_result s = 0 \<Longrightarrow>
   execute s m r chrooted =
     Some \<lparr>h_ret = 0, h_error = None, h_reply = None,
           h_reg = r @ [\<lparr>id_t = t, state_t = running\<rparr>],
           h_sent = [], h_unlocks = [],
           h_spawned = Some \<lparr>ea_transaction = t, ea_command = c, ea_chrooted = chrooted\<rparr>\<rparr>"
  by (simp add: execute_def Let_def lockSnapshot_ok_reg set_last_state_append
      last_state_append wait_running_running)

lemma execute_no_thread:
  "sd_bus_message_read_ss m = Some (t, c) \<Longrightarrow> lock_ret (lockSnapshot (alloc s) r t) = 0 \<Longrightarrow>
   pthread_create_result s \<noteq> 0 \<Longrightarrow> execute s m r chrooted = None"
  by (simp add: execute_def Let_def lockSnapshot_ok_reg last_state_append wait_running_None)

lemma close_unlocks:
  "sd_bus_message_read_s m = Some t \<Longrightarrow> lock_ret (lockSnapshot (alloc s) r t) = 0 \<Longrightarrow>
   h_unlocks (transaction_close tk s m r) = [t] \<and> h_reg (transaction_close tk s m r) = r"
  by (simp add: transaction_close_def Let_def finish_close_def lockSnapshot_ok_reg
      unlockSnapshot_last lockSnapshot_ok_absent)

lemma abort_unlocks:
  "sd_bus_message_read_s m = Some t \<Longrightarrow> lock_ret (lockSnapshot (alloc s) r t) = 0 \<Longrightarrow>
   h_unlocks (transaction_abort tk s m r) = [t] \<and> h_reg (transaction_abort tk s m r) = r"
  by (simp add: transaction_abort_def Let_def finish_close_def lockSnapshot_ok_reg
      unlockSnapshot_last lockSnapshot_ok_absent)

lemma open_keeps_registry:
  "h_reg (transaction_open tk s m r) = r \<and> h_unlocks (transaction_open tk s m r) = []"
  by (simp add: transaction_open_def failed_def split: option.splits)


lemmas worker_simps = execution_func_def run_command_def Let_def case_prod_beta proj_simps
  emitted_simps attempted_simps io_start_def

lemma worker_transport_ok:
  "0 \<le> connect_result s 0 \<Longrightarrow> 0 \<le> emit_result s 0 \<Longrightarrow>
   emitted (trace (snd (execution_func tk s ea io_start))) \<noteq> [] \<and>
   \<not> fault (snd (execution_func tk s ea io_start))"
  by (simp add: worker_simps)

lemma worker_no_connection:
  "connect_result s 0 < 0 \<Longrightarrow> connect_result s 1 < 0 \<Longrightarrow>
   emitted (trace (snd (execution_func tk s ea io_start))) = [] \<and>
   \<not> fault (snd (execution_func tk s ea io_start))"
  by (simp add: worker_simps EINVAL_def)

text \<open>
  The path the worker does not survive: the command ran, the keep step succeeded, the
  connection was opened and the emission of \<^verbatim>\<open>CommandExecuted\<close> failed. Then
  \<^verbatim>\<open>send_error_signal\<close> releases the worker's connection and the label
  \<^verbatim>\<open>finish_execute\<close> releases it again. On every other path the worker
  returns.
\<close>

lemma worker_fault_iff:
  "fault (snd (execution_func tk s ea io_start)) \<longleftrightarrow>
     tukit_new_tx tk \<and> tukit_tx_resume tk (ea_transaction ea) = 0 \<and>
     fst (wordexp s (ea_command ea)) = 0 \<and> tukit_tx_keep tk = 0 \<and>
     0 \<le> connect_result s 0 \<and> emit_result s 0 < 0"
  by (simp add: worker_simps EINVAL_def)

lemma worker_double_release:
  "tukit_new_tx tk \<Longrightarrow> tukit_tx_resume tk (ea_transaction ea) = 0 \<Longrightarrow>
   fst (wordexp s (ea_command ea)) = 0 \<Longrightarrow> tukit_tx_keep tk = 0 \<Longrightarrow>
   0 \<le> connect_result s 0 \<Longrightarrow> emit_result s 0 < 0 \<Longrightarrow>
   fault (snd (execution_func tk s ea io_start)) \<and>
   drop 7 (trace (snd (execution_func tk s ea io_start))) =
     [Emit (Error_signal (ea_transaction ea) ''Cannot send signal 'CommandExecuted'.''
              (emit_result s 0)) (emit_result s 1),
      Release (Bus 0), Use_after_free (Bus 0)]"
  by (simp add: worker_simps)

lemma worker_reaches_keep:
  "tukit_new_tx tk \<Longrightarrow> tukit_tx_resume tk (ea_transaction ea) = 0 \<Longrightarrow>
   wordexp s (ea_command ea) = (0, argv) \<Longrightarrow>
   take 5 (trace (snd (execution_func tk s ea io_start))) =
     [New_tx, Tx_resume (ea_transaction ea), Wordexp (ea_command ea),
      if ea_chrooted ea \<noteq> 0 then Tx_execute argv else Tx_call_ext argv, Tx_keep]"
  by (simp add: worker_simps)

lemma worker_keep_ok:
  "tukit_new_tx tk \<Longrightarrow> tukit_tx_resume tk (ea_transaction ea) = 0 \<Longrightarrow>
   wordexp s (ea_command ea) = (0, argv) \<Longrightarrow> tukit_tx_keep tk = 0 \<Longrightarrow>
   (if ea_chrooted ea \<noteq> 0 then tukit_tx_execute tk argv else tukit_tx_call_ext tk argv) =
     (exec_ret, output) \<Longrightarrow>
   attempted (trace (snd (execution_func tk s ea io_start))) =
     CommandExecuted_signal (ea_transaction ea) exec_ret output #
       (if 0 \<le> connect_result s 0 \<and> 0 \<le> emit_result s 0 then []
        else [Error_signal (ea_transaction ea) ''Cannot send signal 'CommandExecuted'.''
                (if connect_result s 0 < 0 then - EINVAL else emit_result s 0)]) \<and>
   emitted (trace (snd (execution_func tk s ea io_start))) =
     (if 0 \<le> connect_result s 0 \<and> 0 \<le> emit_result s 0
      then [CommandExecuted_signal (ea_transaction ea) exec_ret output]
      else if connect_result s 0 < 0 \<and> (connect_result s 1 < 0 \<or> emit_result s 0 < 0)
      then []
      else if 0 \<le> connect_result s 0 \<and> emit_result s 1 < 0 then []
      else [Error_signal (ea_transaction ea) ''Cannot send signal 'CommandExecuted'.''
                (if connect_result s 0 < 0 then - EINVAL else emit_result s 0)])"
  by (auto simp add: worker_simps EINVAL_def split: if_splits)

lemma worker_keep_fails:
  "tukit_new_tx tk \<Longrightarrow> tukit_tx_resume tk (ea_transaction ea) = 0 \<Longrightarrow>
   wordexp s (ea_command ea) = (0, argv) \<Longrightarrow> tukit_tx_keep tk \<noteq> 0 \<Longrightarrow>
   attempted (trace (snd (execution_func tk s ea io_start))) =
     [Error_signal (ea_transaction ea) (tukit_get_errmsg tk) (- 1)] \<and>
   emitted (trace (snd (execution_func tk s ea io_start))) =
     (if 0 \<le> connect_result s 0 \<and> 0 \<le> emit_result s 0
      then [Error_signal (ea_transaction ea) (tukit_get_errmsg tk) (- 1)] else []) \<and>
   fst (execution_func tk s ea io_start) = tukit_tx_keep tk"
  by (auto simp add: worker_simps EINVAL_def)

lemma worker_wordexp_fails:
  "tukit_new_tx tk \<Longrightarrow> tukit_tx_resume tk (ea_transaction ea) = 0 \<Longrightarrow>
   fst (wordexp s (ea_command ea)) \<noteq> 0 \<Longrightarrow>
   attempted (trace (snd (execution_func tk s ea io_start))) =
     [Error_signal (ea_transaction ea) ''Command could not be processed.''
        (fst (wordexp s (ea_command ea)))] \<and>
   emitted (trace (snd (execution_func tk s ea io_start))) =
     (if 0 \<le> connect_result s 0 \<and> 0 \<le> emit_result s 0
      then [Error_signal (ea_transaction ea) ''Command could not be processed.''
        (fst (wordexp s (ea_command ea)))] else []) \<and>
   fst (execution_func tk s ea io_start) = fst (wordexp s (ea_command ea))"
  by (auto simp add: worker_simps EINVAL_def)

lemmas example_defs = example_engine_def example_sys_def

text \<open>
  C2 as the claim states it fails when the worker gets no connection to the bus:
  \<^verbatim>\<open>Call\<close> locks \<open>1\<close> and starts the worker, the command and the keep step
  succeed, \<^verbatim>\<open>sd_bus_default_system\<close> fails each time it is called. The worker
  calls \<^verbatim>\<open>sd_bus_emit_signal\<close> twice without a connection (for
  \<^verbatim>\<open>CommandExecuted\<close> and for the \<^verbatim>\<open>Error\<close> signal that reports the
  failure), both calls are refused, and the worker returns. No signal is on the bus,
  nothing reaches \<^verbatim>\<open>signalCallback\<close>, the entry stays in the registry and the
  next \<^verbatim>\<open>lockSnapshot\<close> of \<open>1\<close> returns \<^verbatim>\<open>-EBUSY\<close>.
\<close>

theorem worker_without_connection_counterexample:
  "transaction_call (example_sys\<lparr>connect_result := (\<lambda>n. - 2)\<rparr>) [Str ''1'', Str ''true''] [] =
     Some \<lparr>h_ret = 0, h_error = None, h_reply = Some [],
           h_reg = [\<lparr>id_t = ''1'', state_t = running\<rparr>], h_sent = [], h_unlocks = [],
           h_spawned = Some \<lparr>ea_transaction = ''1'', ea_command = ''true'', ea_chrooted = 1\<rparr>\<rparr> \<and>
   trace (snd (execution_func example_engine
       (example_sys\<lparr>connect_result := (\<lambda>n. - 2)\<rparr>)
       \<lparr>ea_transaction = ''1'', ea_command = ''true'', ea_chrooted = 1\<rparr> io_start)) =
     [New_tx, Tx_resume ''1'', Wordexp ''true'', Tx_execute [''true''], Tx_keep,
      Connect (- 2), Emit (CommandExecuted_signal ''1'' 0 ''hi'') (- 22),
      Connect (- 2),
      Emit (Error_signal ''1'' ''Cannot send signal 'CommandExecuted'.'' (- 22)) (- 22),
      Free_tx] \<and>
   fault (snd (execution_func example_engine
       (example_sys\<lparr>connect_result := (\<lambda>n. - 2)\<rparr>)
       \<lparr>ea_transaction = ''1'', ea_command = ''true'', ea_chrooted = 1\<rparr> io_start)) = False \<and>
   emitted (trace (snd (execution_func example_engine
       (example_sys\<lparr>connect_result := (\<lambda>n. - 2)\<rparr>)
       \<lparr>ea_transaction = ''1'', ea_command = ''true'', ea_chrooted = 1\<rparr> io_start))) = [] \<and>
   deliver_all [] [\<lparr>id_t = ''1'', state_t = running\<rparr>] =
     ([\<lparr>id_t = ''1'', state_t = running\<rparr>], []) \<and>
   lock_ret (lockSnapshot \<lparr>malloc_ok = True, strdup_ok = True\<rparr>
       [\<lparr>id_t = ''1'', state_t = running\<rparr>] ''1'') = - 16"
  by (simp add: transaction_call_def reply_empty_def execute_def Let_def wait_running_running
      example_defs worker_simps EBUSY_def EINVAL_def)

text \<open>
  C2 as amended: on every path on which the worker returns it has put at most one signal
  on the bus, and a signal it put there matches the rule of \<^verbatim>\<open>signalCallback\<close>
  and carries the transaction's identifier as its first string. When the first connection
  to the bus and the first emission succeed, the worker returns and delivering what it
  emitted is exactly one call of \<^verbatim>\<open>unlockSnapshot\<close>, for that identifier. When
  the worker gets no connection, it returns without a signal on the bus and the delivery
  of what it emitted calls \<^verbatim>\<open>unlockSnapshot\<close> not at all: the registry stays as
  it is. \<^verbatim>\<open>Close\<close>, once its \<^verbatim>\<open>lockSnapshot\<close> has returned 0, calls
  \<^verbatim>\<open>unlockSnapshot\<close> exactly once for the identifier on every path, whatever
  the engine returns, and leaves the registry as it found it.
\<close>

theorem no_orphan_locks:
  "(\<not> fault (snd (execution_func tk s ea io_start)) \<longrightarrow>
      emitted (trace (snd (execution_func tk s ea io_start))) = [] \<or>
      (\<exists>sg. emitted (trace (snd (execution_func tk s ea io_start))) = [sg] \<and>
         signal_matches sg \<and>
         sd_bus_message_read_s (sig_body sg) = Some (ea_transaction ea))) \<and>
   (0 \<le> connect_result s 0 \<and> 0 \<le> emit_result s 0 \<longrightarrow>
      \<not> fault (snd (execution_func tk s ea io_start)) \<and>
      deliver_all (emitted (trace (snd (execution_func tk s ea io_start)))) r =
        (unlockSnapshot r (ea_transaction ea), [ea_transaction ea])) \<and>
   (connect_result s 0 < 0 \<and> connect_result s 1 < 0 \<longrightarrow>
      \<not> fault (snd (execution_func tk s ea io_start)) \<and>
      emitted (trace (snd (execution_func tk s ea io_start))) = [] \<and>
      deliver_all (emitted (trace (snd (execution_func tk s ea io_start)))) r = (r, [])) \<and>
   (sd_bus_message_read_s m = Some t \<and> lock_ret (lockSnapshot (alloc s) r t) = 0 \<longrightarrow>
      h_unlocks (transaction_close tk s m r) = [t] \<and>
      h_reg (transaction_close tk s m r) = r)"
proof -
  let ?W = "snd (execution_func tk s ea io_start)"
  let ?E = "emitted (trace ?W)"
  have cases: "?E = [] \<or>
    (\<exists>sg. ?E = [sg] \<and> signal_matches sg \<and>
       sd_bus_message_read_s (sig_body sg) = Some (ea_transaction ea))"
    using worker_emitted_cases [of tk s ea] daemon_signals_match by auto
  have deliver: "\<not> fault ?W \<and>
      deliver_all ?E r = (unlockSnapshot r (ea_transaction ea), [ea_transaction ea])"
    if ok: "0 \<le> connect_result s 0 \<and> 0 \<le> emit_result s 0"
  proof -
    from ok have ne: "?E \<noteq> []" and nf: "\<not> fault ?W"
      by (simp_all add: worker_transport_ok)
    from ne cases obtain sg where sg: "?E = [sg]" "signal_matches sg"
      "sd_bus_message_read_s (sig_body sg) = Some (ea_transaction ea)"
      by blast
    from deliver_signal_unlocks [OF sg(2) sg(3), of r] nf show ?thesis
      by (simp add: sg(1) Let_def)
  qed
  have silent: "\<not> fault ?W \<and> ?E = [] \<and> deliver_all ?E r = (r, [])"
    if nc: "connect_result s 0 < 0 \<and> connect_result s 1 < 0"
    using nc worker_no_connection [of s tk ea] by simp
  from cases deliver silent close_unlocks [of m t s r tk] show ?thesis by blast
qed

theorem no_orphan_locks_witness:
  "0 \<le> connect_result example_sys 0 \<and> 0 \<le> emit_result example_sys 0 \<and>
   sd_bus_message_read_s [Str ''1''] = Some ''1'' \<and>
   lock_ret (lockSnapshot (alloc example_sys) [] ''1'') = 0 \<and>
   fault (snd (execution_func example_engine example_sys
       \<lparr>ea_transaction = ''1'', ea_command = ''true'', ea_chrooted = 1\<rparr> io_start)) = False \<and>
   emitted (trace (snd (execution_func example_engine example_sys
       \<lparr>ea_transaction = ''1'', ea_command = ''true'', ea_chrooted = 1\<rparr> io_start))) =
     [CommandExecuted_signal ''1'' 0 ''hi''] \<and>
   deliver_all (emitted (trace (snd (execution_func example_engine example_sys
       \<lparr>ea_transaction = ''1'', ea_command = ''true'', ea_chrooted = 1\<rparr> io_start))))
     [\<lparr>id_t = ''1'', state_t = running\<rparr>] = ([], [''1'']) \<and>
   connect_result (example_sys\<lparr>connect_result := (\<lambda>n. - 2)\<rparr>) 0 < 0 \<and>
   connect_result (example_sys\<lparr>connect_result := (\<lambda>n. - 2)\<rparr>) 1 < 0 \<and>
   deliver_all (emitted (trace (snd (execution_func example_engine
       (example_sys\<lparr>connect_result := (\<lambda>n. - 2)\<rparr>)
       \<lparr>ea_transaction = ''1'', ea_command = ''true'', ea_chrooted = 1\<rparr> io_start))))
     [\<lparr>id_t = ''1'', state_t = running\<rparr>] = ([\<lparr>id_t = ''1'', state_t = running\<rparr>], []) \<and>
   h_unlocks (transaction_close example_engine example_sys [Str ''1''] []) = [''1''] \<and>
   h_reg (transaction_close example_engine example_sys [Str ''1''] []) = []"
  using no_orphan_locks [of example_engine example_sys
      "\<lparr>ea_transaction = ''1'', ea_command = ''true'', ea_chrooted = 1\<rparr>"
      "[\<lparr>id_t = ''1'', state_t = running\<rparr>]" "[Str ''1'']" "''2''"]
    no_orphan_locks [of example_engine "example_sys\<lparr>connect_result := (\<lambda>n. - 2)\<rparr>"
      "\<lparr>ea_transaction = ''1'', ea_command = ''true'', ea_chrooted = 1\<rparr>"
      "[\<lparr>id_t = ''1'', state_t = running\<rparr>]" "[Str ''1'']" "''2''"]
    no_orphan_locks [of example_engine example_sys
      "\<lparr>ea_transaction = ''1'', ea_command = ''true'', ea_chrooted = 1\<rparr>"
      "[]" "[Str ''1'']" "''1''"]
  by (simp add: example_defs worker_simps)

text \<open>
  C5 (the retain step): a worker whose engine handle, resume and expansion succeeded runs
  the command in the mode its flag selects and then calls \<^verbatim>\<open>tukit_tx_keep\<close>,
  whatever the command returned. If the keep step succeeds, the first signal the worker
  emits is \<^verbatim>\<open>CommandExecuted\<close> with the command's return code and output,
  whatever the code is; an \<^verbatim>\<open>Error\<close> signal follows only if that emission
  failed. If the keep step fails, the one signal the worker emits is \<^verbatim>\<open>Error\<close>
  with the engine's message and the code -1: \<^verbatim>\<open>CommandExecuted\<close> is not
  emitted and the output is in no signal. (The signal is on the bus when the connection
  and the emission succeed.)
\<close>

theorem worker_retain_step:
  "tukit_new_tx tk \<and> tukit_tx_resume tk (ea_transaction ea) = 0 \<and>
   wordexp s (ea_command ea) = (0, argv) \<and>
   (if ea_chrooted ea \<noteq> 0 then tukit_tx_execute tk argv else tukit_tx_call_ext tk argv) =
     (exec_ret, output) \<longrightarrow>
   take 5 (trace (snd (execution_func tk s ea io_start))) =
     [New_tx, Tx_resume (ea_transaction ea), Wordexp (ea_command ea),
      if ea_chrooted ea \<noteq> 0 then Tx_execute argv else Tx_call_ext argv, Tx_keep] \<and>
   (tukit_tx_keep tk = 0 \<longrightarrow>
      attempted (trace (snd (execution_func tk s ea io_start))) =
        CommandExecuted_signal (ea_transaction ea) exec_ret output #
          (if 0 \<le> connect_result s 0 \<and> 0 \<le> emit_result s 0 then []
           else [Error_signal (ea_transaction ea) ''Cannot send signal 'CommandExecuted'.''
                   (if connect_result s 0 < 0 then - EINVAL else emit_result s 0)])) \<and>
   (tukit_tx_keep tk \<noteq> 0 \<longrightarrow>
      attempted (trace (snd (execution_func tk s ea io_start))) =
        [Error_signal (ea_transaction ea) (tukit_get_errmsg tk) (- 1)] \<and>
      emitted (trace (snd (execution_func tk s ea io_start))) =
        (if 0 \<le> connect_result s 0 \<and> 0 \<le> emit_result s 0
         then [Error_signal (ea_transaction ea) (tukit_get_errmsg tk) (- 1)] else []))"
proof (intro impI, elim conjE)
  assume h: "tukit_new_tx tk" "tukit_tx_resume tk (ea_transaction ea) = 0"
    "wordexp s (ea_command ea) = (0, argv)"
    "(if ea_chrooted ea \<noteq> 0 then tukit_tx_execute tk argv else tukit_tx_call_ext tk argv) =
       (exec_ret, output)"
  note keep = worker_reaches_keep [OF h(1) h(2) h(3)]
  note ok = worker_keep_ok [OF h(1) h(2) h(3) _ h(4)]
  note fails = worker_keep_fails [OF h(1) h(2) h(3)]
  from keep ok fails show
    "take 5 (trace (snd (execution_func tk s ea io_start))) =
       [New_tx, Tx_resume (ea_transaction ea), Wordexp (ea_command ea),
        if ea_chrooted ea \<noteq> 0 then Tx_execute argv else Tx_call_ext argv, Tx_keep] \<and>
     (tukit_tx_keep tk = 0 \<longrightarrow>
        attempted (trace (snd (execution_func tk s ea io_start))) =
          CommandExecuted_signal (ea_transaction ea) exec_ret output #
            (if 0 \<le> connect_result s 0 \<and> 0 \<le> emit_result s 0 then []
             else [Error_signal (ea_transaction ea) ''Cannot send signal 'CommandExecuted'.''
                     (if connect_result s 0 < 0 then - EINVAL else emit_result s 0)])) \<and>
     (tukit_tx_keep tk \<noteq> 0 \<longrightarrow>
        attempted (trace (snd (execution_func tk s ea io_start))) =
          [Error_signal (ea_transaction ea) (tukit_get_errmsg tk) (- 1)] \<and>
        emitted (trace (snd (execution_func tk s ea io_start))) =
          (if 0 \<le> connect_result s 0 \<and> 0 \<le> emit_result s 0
           then [Error_signal (ea_transaction ea) (tukit_get_errmsg tk) (- 1)] else []))"
    by blast
qed

theorem worker_retain_step_witness:
  "tukit_new_tx (example_engine\<lparr>tukit_tx_execute := (\<lambda>argv. (3, ''no'')), tukit_tx_keep := 5\<rparr>) \<and>
   wordexp example_sys ''false'' = (0, [''false'']) \<and>
   take 5 (trace (snd (execution_func
       (example_engine\<lparr>tukit_tx_execute := (\<lambda>argv. (3, ''no''))\<rparr>) example_sys
       \<lparr>ea_transaction = ''1'', ea_command = ''false'', ea_chrooted = 1\<rparr> io_start))) =
     [New_tx, Tx_resume ''1'', Wordexp ''false'', Tx_execute [''false''], Tx_keep] \<and>
   attempted (trace (snd (execution_func
       (example_engine\<lparr>tukit_tx_execute := (\<lambda>argv. (3, ''no''))\<rparr>) example_sys
       \<lparr>ea_transaction = ''1'', ea_command = ''false'', ea_chrooted = 1\<rparr> io_start))) =
     [CommandExecuted_signal ''1'' 3 ''no''] \<and>
   attempted (trace (snd (execution_func
       (example_engine\<lparr>tukit_tx_execute := (\<lambda>argv. (3, ''no'')), tukit_tx_keep := 5\<rparr>)
       example_sys
       \<lparr>ea_transaction = ''1'', ea_command = ''false'', ea_chrooted = 1\<rparr> io_start))) =
     [Error_signal ''1'' ''engine error'' (- 1)]"
  using worker_retain_step
      [of "example_engine\<lparr>tukit_tx_execute := (\<lambda>argv. (3, ''no''))\<rparr>"
          "\<lparr>ea_transaction = ''1'', ea_command = ''false'', ea_chrooted = 1\<rparr>"
          example_sys "[''false'']" 3 "''no''"]
    worker_retain_step
      [of "example_engine\<lparr>tukit_tx_execute := (\<lambda>argv. (3, ''no'')), tukit_tx_keep := 5\<rparr>"
          "\<lparr>ea_transaction = ''1'', ea_command = ''false'', ea_chrooted = 1\<rparr>"
          example_sys "[''false'']" 3 "''no''"]
  by (simp add: example_defs)


lemma call_started:
  "sd_bus_message_read_ss m = Some (t, c) \<Longrightarrow> lock_ret (lockSnapshot (alloc s) r t) = 0 \<Longrightarrow>
   pthread_create_result s = 0 \<Longrightarrow>
   transaction_call s m r =
     Some \<lparr>h_ret = reply_result s, h_error = None, h_reply = Some [],
           h_reg = r @ [\<lparr>id_t = t, state_t = running\<rparr>],
           h_sent = [], h_unlocks = [],
           h_spawned = Some \<lparr>ea_transaction = t, ea_command = c, ea_chrooted = 1\<rparr>\<rparr> \<and>
   transaction_callext s m r =
     Some \<lparr>h_ret = reply_result s, h_error = None, h_reply = Some [],
           h_reg = r @ [\<lparr>id_t = t, state_t = running\<rparr>],
           h_sent = [], h_unlocks = [],
           h_spawned = Some \<lparr>ea_transaction = t, ea_command = c, ea_chrooted = 0\<rparr>\<rparr>"
  by (simp add: transaction_call_def transaction_callext_def execute_started reply_empty_def)

lemma unreadable_sync:
  "sd_bus_message_read_s m = None \<Longrightarrow>
   transaction_open tk s m r =
     failed (- 1) (Some ''Could not read base snapshot identifier.'') r \<and>
   transaction_close tk s m r = failed (- 1) (Some ''Could not read D-Bus parameters.'') r \<and>
   transaction_abort tk s m r = failed (- 1) (Some ''Could not read D-Bus parameters.'') r"
  by (simp add: transaction_open_def transaction_close_def transaction_abort_def)

lemma unreadable_call:
  "sd_bus_message_read_ss m = None \<Longrightarrow>
   transaction_call s m r = Some (failed (- 1) (Some ''Could not read D-Bus parameters.'') r) \<and>
   transaction_callext s m r = Some (failed (- 1) (Some ''Could not read D-Bus parameters.'') r)"
  by (simp add: transaction_call_def transaction_callext_def execute_def reply_empty_def
      failed_def)

text \<open>
  C9 as the claim states it fails for unreadable parameters of \<^verbatim>\<open>Call\<close> and
  \<^verbatim>\<open>CallExt\<close>: a message without two strings makes the method itself return
  -1 with an error, no worker is started and no signal is emitted.
\<close>

theorem call_unreadable_parameters_counterexample:
  "transaction_call example_sys [Str ''1''] [] =
     Some \<lparr>h_ret = - 1, h_error = Some ''Could not read D-Bus parameters.'', h_reply = None,
           h_reg = [], h_sent = [], h_unlocks = [], h_spawned = None\<rparr> \<and>
   transaction_callext example_sys [Str ''1'', Int32 0] [] =
     Some \<lparr>h_ret = - 1, h_error = Some ''Could not read D-Bus parameters.'', h_reply = None,
           h_reg = [], h_sent = [], h_unlocks = [], h_spawned = None\<rparr>"
  by (simp add: transaction_call_def transaction_callext_def execute_def reply_empty_def
      failed_def)

text \<open>
  C9 as amended: unreadable parameters are reported by the return value -1 and an error
  message by all five methods, \<^verbatim>\<open>Call\<close> and \<^verbatim>\<open>CallExt\<close> included,
  without a worker and without a signal. Command text that cannot be expanded exists only
  for \<^verbatim>\<open>Call\<close> and \<^verbatim>\<open>CallExt\<close>: the method locks, starts the worker
  and returns the result of its empty reply without looking at the command; the worker,
  once engine handle and resume succeeded, emits the \<^verbatim>\<open>Error\<close> signal with the
  fixed message and the code of \<^verbatim>\<open>wordexp\<close> (on the bus when connection and
  emission succeed).
\<close>

theorem malformed_input_propagation:
  "(sd_bus_message_read_s m = None \<longrightarrow>
      transaction_open tk s m r =
        failed (- 1) (Some ''Could not read base snapshot identifier.'') r \<and>
      transaction_close tk s m r = failed (- 1) (Some ''Could not read D-Bus parameters.'') r \<and>
      transaction_abort tk s m r = failed (- 1) (Some ''Could not read D-Bus parameters.'') r) \<and>
   (sd_bus_message_read_ss m = None \<longrightarrow>
      transaction_call s m r =
        Some (failed (- 1) (Some ''Could not read D-Bus parameters.'') r) \<and>
      transaction_callext s m r =
        Some (failed (- 1) (Some ''Could not read D-Bus parameters.'') r)) \<and>
   h_spawned (failed ret err r) = None \<and> h_sent (failed ret err r) = [] \<and>
   h_ret (failed ret err r) = ret \<and> h_error (failed ret err r) = err \<and>
   (sd_bus_message_read_ss m = Some (t, c) \<and> lock_ret (lockSnapshot (alloc s) r t) = 0 \<and>
    pthread_create_result s = 0 \<longrightarrow>
      transaction_call s m r =
        Some \<lparr>h_ret = reply_result s, h_error = None, h_reply = Some [],
              h_reg = r @ [\<lparr>id_t = t, state_t = running\<rparr>],
              h_sent = [], h_unlocks = [],
              h_spawned = Some \<lparr>ea_transaction = t, ea_command = c, ea_chrooted = 1\<rparr>\<rparr> \<and>
      transaction_callext s m r =
        Some \<lparr>h_ret = reply_result s, h_error = None, h_reply = Some [],
              h_reg = r @ [\<lparr>id_t = t, state_t = running\<rparr>],
              h_sent = [], h_unlocks = [],
              h_spawned = Some \<lparr>ea_transaction = t, ea_command = c, ea_chrooted = 0\<rparr>\<rparr>) \<and>
   (tukit_new_tx tk \<and> tukit_tx_resume tk (ea_transaction ea) = 0 \<and>
    fst (wordexp s (ea_command ea)) \<noteq> 0 \<longrightarrow>
      attempted (trace (snd (execution_func tk s ea io_start))) =
        [Error_signal (ea_transaction ea) ''Command could not be processed.''
           (fst (wordexp s (ea_command ea)))] \<and>
      emitted (trace (snd (execution_func tk s ea io_start))) =
        (if 0 \<le> connect_result s 0 \<and> 0 \<le> emit_result s 0
         then [Error_signal (ea_transaction ea) ''Command could not be processed.''
                 (fst (wordexp s (ea_command ea)))]
         else []))"
  using unreadable_sync [of m tk s r] unreadable_call [of m s r] call_started [of m t c s r]
    worker_wordexp_fails [of tk ea s]
  by (simp add: failed_def)

theorem malformed_input_propagation_witness:
  "sd_bus_message_read_s [] = None \<and> sd_bus_message_read_ss [Str ''1''] = None \<and>
   transaction_close example_engine example_sys [] [] =
     failed (- 1) (Some ''Could not read D-Bus parameters.'') [] \<and>
   transaction_call example_sys [Str ''1''] [] =
     Some (failed (- 1) (Some ''Could not read D-Bus parameters.'') []) \<and>
   sd_bus_message_read_ss [Str ''1'', Str ''$(''] = Some (''1'', ''$('') \<and>
   lock_ret (lockSnapshot (alloc example_sys) [] ''1'') = 0 \<and>
   pthread_create_result example_sys = 0 \<and>
   transaction_call (example_sys\<lparr>wordexp := (\<lambda>c. (2, []))\<rparr>) [Str ''1'', Str ''$(''] [] =
     Some \<lparr>h_ret = 0, h_error = None, h_reply = Some [],
           h_reg = [\<lparr>id_t = ''1'', state_t = running\<rparr>],
           h_sent = [], h_unlocks = [],
           h_spawned = Some \<lparr>ea_transaction = ''1'', ea_command = ''$('', ea_chrooted = 1\<rparr>\<rparr> \<and>
   emitted (trace (snd (execution_func example_engine
       (example_sys\<lparr>wordexp := (\<lambda>c. (2, []))\<rparr>)
       \<lparr>ea_transaction = ''1'', ea_command = ''$('', ea_chrooted = 1\<rparr> io_start))) =
     [Error_signal ''1'' ''Command could not be processed.'' 2]"
  using malformed_input_propagation
      [of "[]" example_engine example_sys "[]"]
    malformed_input_propagation
      [of "[Str ''1'']" example_engine example_sys "[]"]
    malformed_input_propagation
      [of "[Str ''1'', Str ''$('']" example_engine "example_sys\<lparr>wordexp := (\<lambda>c. (2, []))\<rparr>" "[]"
          _ _ "''1''" "''$(''"
          "\<lparr>ea_transaction = ''1'', ea_command = ''$('', ea_chrooted = 1\<rparr>"]
  by (simp add: example_defs)

text \<open>
  C10 as the claim states it fails when the registry already holds an entry with the
  identifier the engine gives the new snapshot (a \<^verbatim>\<open>Call\<close> for \<open>7\<close> whose
  worker is still running): \<^verbatim>\<open>Open\<close> succeeds without touching the registry,
  and the delivery of its \<^verbatim>\<open>TransactionOpened\<close> signal removes that entry.
\<close>

theorem open_signal_releases_foreign_lock_counterexample:
  "h_ret (transaction_open example_engine example_sys [Str ''base'']
       [\<lparr>id_t = ''7'', state_t = running\<rparr>]) = 0 \<and>
   h_reply (transaction_open example_engine example_sys [Str ''base'']
       [\<lparr>id_t = ''7'', state_t = running\<rparr>]) = Some [Str ''7''] \<and>
   h_sent (transaction_open example_engine example_sys [Str ''base'']
       [\<lparr>id_t = ''7'', state_t = running\<rparr>]) = [TransactionOpened_signal ''7''] \<and>
   h_reg (transaction_open example_engine example_sys [Str ''base'']
       [\<lparr>id_t = ''7'', state_t = running\<rparr>]) = [\<lparr>id_t = ''7'', state_t = running\<rparr>] \<and>
   h_reg (deliver_signal (TransactionOpened_signal ''7'')
       [\<lparr>id_t = ''7'', state_t = running\<rparr>]) = []"
  by (simp add: transaction_open_def example_defs deliver_signal_def signal_matches_def
      signalCallback_def TransactionOpened_signal_def)

text \<open>
  C10 as amended: every signal on the object path \<^verbatim>\<open>/org/opensuse/tukit\<close> whose
  first argument is a string makes \<^verbatim>\<open>signalCallback\<close> call
  \<^verbatim>\<open>unlockSnapshot\<close> for that string, and \<^verbatim>\<open>TransactionOpened\<close>,
  \<^verbatim>\<open>CommandExecuted\<close> and \<^verbatim>\<open>Error\<close> are such signals.
  \<^verbatim>\<open>Open\<close> never changes the registry and emits at most the
  \<^verbatim>\<open>TransactionOpened\<close> signal of the engine's snapshot. The release that
  signal triggers leaves the registry unchanged if the snapshot's identifier has no
  entry; in general it removes the first entry with that identifier.
\<close>

theorem signal_loopback_release:
  "(signal_matches sg \<and> sd_bus_message_read_s (sig_body sg) = Some t \<longrightarrow>
      h_unlocks (deliver_signal sg r) = [t] \<and>
      h_reg (deliver_signal sg r) = unlockSnapshot r t) \<and>
   signal_matches (TransactionOpened_signal snapid) \<and>
   sd_bus_message_read_s (sig_body (TransactionOpened_signal snapid)) = Some snapid \<and>
   signal_matches (CommandExecuted_signal t c out) \<and>
   sd_bus_message_read_s (sig_body (CommandExecuted_signal t c out)) = Some t \<and>
   signal_matches (Error_signal t msg e) \<and>
   sd_bus_message_read_s (sig_body (Error_signal t msg e)) = Some t \<and>
   h_reg (transaction_open tk s m r) = r \<and>
   h_unlocks (transaction_open tk s m r) = [] \<and>
   (h_sent (transaction_open tk s m r) = [] \<or>
    (\<exists>sn. tukit_tx_get_snapshot tk = Some sn \<and>
       h_sent (transaction_open tk s m r) = [TransactionOpened_signal sn])) \<and>
   (snapid \<notin> set (ids r) \<longrightarrow>
      h_reg (deliver_signal (TransactionOpened_signal snapid)
        (h_reg (transaction_open tk s m r))) = r) \<and>
   ids (h_reg (deliver_signal (TransactionOpened_signal snapid)
        (h_reg (transaction_open tk s m r)))) = remove1 snapid (ids r)"
proof -
  have sent: "h_sent (transaction_open tk s m r) = [] \<or>
    (\<exists>sn. tukit_tx_get_snapshot tk = Some sn \<and>
       h_sent (transaction_open tk s m r) = [TransactionOpened_signal sn])"
    by (simp add: transaction_open_def failed_def split: option.splits)
  have deliver: "h_reg (deliver_signal (TransactionOpened_signal snapid) r) =
      unlockSnapshot r snapid"
    using deliver_signal_unlocks [of "TransactionOpened_signal snapid" snapid r]
      daemon_signals_match [of snapid] by simp
  from sent deliver show ?thesis
    using deliver_signal_unlocks [of sg t r] daemon_signals_match [of t _ _ c out]
      daemon_signals_match [of t msg e] daemon_signals_match [of snapid]
      open_keeps_registry [of tk s m r] unlockSnapshot_absent [of snapid r]
      ids_unlockSnapshot [of r snapid]
    by simp
qed

theorem signal_loopback_release_witness:
  "signal_matches (Error_signal ''1'' ''engine error'' (- 1)) \<and>
   sd_bus_message_read_s (sig_body (Error_signal ''1'' ''engine error'' (- 1))) = Some ''1'' \<and>
   h_unlocks (deliver_signal (Error_signal ''1'' ''engine error'' (- 1))
       [\<lparr>id_t = ''1'', state_t = running\<rparr>]) = [''1''] \<and>
   h_reg (deliver_signal (Error_signal ''1'' ''engine error'' (- 1))
       [\<lparr>id_t = ''1'', state_t = running\<rparr>]) = [] \<and>
   ''7'' \<notin> set (ids [\<lparr>id_t = ''1'', state_t = running\<rparr>]) \<and>
   h_sent (transaction_open example_engine example_sys [Str ''base'']
       [\<lparr>id_t = ''1'', state_t = running\<rparr>]) = [TransactionOpened_signal ''7''] \<and>
   h_reg (deliver_signal (TransactionOpened_signal ''7'')
       (h_reg (transaction_open example_engine example_sys [Str ''base'']
          [\<lparr>id_t = ''1'', state_t = running\<rparr>]))) = [\<lparr>id_t = ''1'', state_t = running\<rparr>]"
  using signal_loopback_release
      [of "Error_signal ''1'' ''engine error'' (- 1)" "''1''"
          "[\<lparr>id_t = ''1'', state_t = running\<rparr>]" "''7''" 0 "[]" "[]" 0
          example_engine example_sys "[Str ''base'']"]
  by (simp add: example_defs transaction_open_def ids_def signal_matches_def Error_signal_def
      TransactionOpened_signal_def CommandExecuted_signal_def deliver_signal_def
      signalCallback_def)

end
